theory Spec2Isabelle
  imports Main
begin

section \<open>JSON values and Python exceptions\<close>

text \<open>
  A frame is text; \<open>json.loads\<close> turns it into a Python value. The model starts from
  that value: null, booleans, integers, strings, arrays and objects (a dict, written as
  the list of its items; floating-point numbers are left out). An object's keys are
  distinct, as the keys of a dict are.
\<close>

datatype json =
    JNull
  | JBool bool
  | JInt int
  | JStr string
  | JArr "json list"
  | JObj "(string \<times> json) list"

text \<open>Python truth value of a decoded JSON value (\<open>if not x\<close>).\<close>

fun truthy :: "json \<Rightarrow> bool" where
  "truthy JNull = False"
| "truthy (JBool b) = b"
| "truthy (JInt i) = (i \<noteq> 0)"
| "truthy (JStr s) = (s \<noteq> [])"
| "truthy (JArr xs) = (xs \<noteq> [])"
| "truthy (JObj kvs) = (kvs \<noteq> [])"

fun type_name :: "json \<Rightarrow> string" where
  "type_name JNull = ''NoneType''"
| "type_name (JBool b) = ''bool''"
| "type_name (JInt i) = ''int''"
| "type_name (JStr s) = ''str''"
| "type_name (JArr xs) = ''list''"
| "type_name (JObj kvs) = ''dict''"

text \<open>The exceptions the modelled code can meet; the argument is \<open>str(e)\<close>.\<close>

datatype exn =
    JSONDecodeError string
  | ValueError string
  | AttributeError string
  | TypeError string
  | KeyError string
  | RuntimeError string
  | NameError string
  | SendFailure string

fun str_exn :: "exn \<Rightarrow> string" where
  "str_exn (JSONDecodeError m) = m"
| "str_exn (ValueError m) = m"
| "str_exn (AttributeError m) = m"
| "str_exn (TypeError m) = m"
| "str_exn (KeyError m) = m"
| "str_exn (RuntimeError m) = m"
| "str_exn (NameError m) = m"
| "str_exn (SendFailure m) = m"

definition no_attribute :: "json \<Rightarrow> string \<Rightarrow> exn" where
  "no_attribute v a =
     AttributeError ([CHR 0x27] @ type_name v @ [CHR 0x27] @ '' object has no attribute '' @
                     [CHR 0x27] @ a @ [CHR 0x27])"

text \<open>\<open>d.get(k, default)\<close> on the items of a dict, and a key lookup in an envelope.\<close>

definition dget :: "(string \<times> json) list \<Rightarrow> string \<Rightarrow> json \<Rightarrow> json" where
  "dget kvs k d = (case map_of kvs k of None \<Rightarrow> d | Some v \<Rightarrow> v)"

fun field :: "json \<Rightarrow> string \<Rightarrow> json option" where
  "field (JObj kvs) k = map_of kvs k"
| "field v k = None"

section \<open>The durable store (pubsub/models.py)\<close>

text \<open>
  Rows carry the columns that the modelled operations read or write. A foreign key to a
  topic is the topic's name: the name is unique and a topic's rows are deleted with it,
  so names and primary keys correspond one to one. \<open>m_data\<close> is the JSON value whose
  serialisation the \<open>data\<close> column holds (\<open>json.loads (json.dumps v) = v\<close>).
\<close>

record topic_row =
  t_name :: string
  t_last_published :: "nat option"
  t_message_count :: nat
  t_subscriber_count :: nat

record connection_row =
  c_id :: string
  c_last_activity :: nat

record subscription_row =
  s_connection :: string
  s_topic :: string
  s_is_active :: bool

record message_row =
  m_id :: string
  m_topic :: string
  m_publisher_connection :: "string option"
  m_data :: json
  m_published_at :: nat
  m_metadata :: json

record database =
  topics :: "topic_row list"
  connections :: "connection_row list"
  subscriptions :: "subscription_row list"
  messages :: "message_row list"

definition find_topic :: "database \<Rightarrow> string \<Rightarrow> topic_row option" where
  "find_topic d n = find (\<lambda>r. t_name r = n) (topics d)"

definition connection_exists :: "database \<Rightarrow> string \<Rightarrow> bool" where
  "connection_exists d c = (\<exists>r \<in> set (connections d). c_id r = c)"

definition find_subscription :: "database \<Rightarrow> string \<Rightarrow> string \<Rightarrow> subscription_row option" where
  "find_subscription d c t = find (\<lambda>s. s_connection s = c \<and> s_topic s = t) (subscriptions d)"

text \<open>\<open>topic.subscriptions.filter(is_active=True).count()\<close>\<close>

definition active_count :: "database \<Rightarrow> string \<Rightarrow> nat" where
  "active_count d t = length (filter (\<lambda>s. s_topic s = t \<and> s_is_active s) (subscriptions d))"

text \<open>\<open>TopicSubscription.objects.filter(topic=topic).count()\<close>\<close>

definition subscription_count :: "database \<Rightarrow> string \<Rightarrow> nat" where
  "subscription_count d t = length (filter (\<lambda>s. s_topic s = t) (subscriptions d))"

text \<open>\<open>Topic.update_subscriber_count\<close>: write the given count to the topic's row.\<close>

definition update_subscriber_count :: "string \<Rightarrow> nat \<Rightarrow> database \<Rightarrow> database" where
  "update_subscriber_count t n d =
     d\<lparr>topics := map (\<lambda>r. if t_name r = t then r\<lparr>t_subscriber_count := n\<rparr> else r) (topics d)\<rparr>"

definition increment_message_count :: "string \<Rightarrow> database \<Rightarrow> database" where
  "increment_message_count t d =
     d\<lparr>topics := map (\<lambda>r. if t_name r = t then r\<lparr>t_message_count := t_message_count r + 1\<rparr> else r)
                      (topics d)\<rparr>"

definition update_last_published :: "string \<Rightarrow> nat \<Rightarrow> database \<Rightarrow> database" where
  "update_last_published t ts d =
     d\<lparr>topics := map (\<lambda>r. if t_name r = t then r\<lparr>t_last_published := Some ts\<rparr> else r) (topics d)\<rparr>"

definition update_activity :: "string \<Rightarrow> nat \<Rightarrow> database \<Rightarrow> database" where
  "update_activity c ts d =
     d\<lparr>connections := map (\<lambda>r. if c_id r = c then r\<lparr>c_last_activity := ts\<rparr> else r)
                           (connections d)\<rparr>"

text \<open>Saving \<open>is_active\<close> on the row of the pair (connection, topic).\<close>

definition set_active :: "string \<Rightarrow> string \<Rightarrow> bool \<Rightarrow> database \<Rightarrow> database" where
  "set_active c t b d =
     d\<lparr>subscriptions :=
         map (\<lambda>s. if s_connection s = c \<and> s_topic s = t then s\<lparr>s_is_active := b\<rparr> else s)
             (subscriptions d)\<rparr>"

section \<open>Consumers, the registry and the sockets (pubsub/consumers.py)\<close>

text \<open>
  A handle is the identity of one \<open>PubSubConsumer\<close> instance. The class variable
  \<open>_topic_connections\<close> is a dict from topic names to sets of instances; a set is
  modelled by a list without repetition, iterated in list order (Python leaves the order
  open). Each socket either takes a frame or raises on \<open>send\<close>; \<open>sent\<close> lists the
  frames a socket has taken, oldest first. \<open>timezone.now()\<close> reads a clock that moves on
  at every reading, \<open>uuid.uuid4()\<close> draws the next string of a source, and whether
  \<open>uuid.UUID\<close> accepts a string is a parameter of the world.
\<close>

type_synonym handle = nat

record consumer =
  connection_id :: "string option"
  client_id :: json
  subscribed_topics :: "string list"
  connection :: "string option"

record world =
  db :: database
  topic_connections :: "string \<Rightarrow> handle list option"
  consumers :: "handle \<Rightarrow> consumer"
  sent :: "handle \<Rightarrow> json list"
  send_fails :: "handle \<Rightarrow> string option"
  clock :: nat
  uuid_next :: nat
  uuid_source :: "nat \<Rightarrow> string"
  uuid_parses :: "string \<Rightarrow> bool"

text \<open>
  A statement returns a value, raises, or leaves the model: a truthy \<open>topic\<close> that is
  not a string reaches the ORM's coercion of lookup values, which is not modelled.
\<close>

datatype 'a outcome = Ok 'a | Raise exn | Unmodelled

type_synonym 'a action = "world \<Rightarrow> 'a outcome \<times> world"

definition ok :: "'a \<Rightarrow> 'a action" where
  "ok x w = (Ok x, w)"

definition raise :: "exn \<Rightarrow> 'a action" where
  "raise e w = (Raise e, w)"

definition unmodelled :: "'a action" where
  "unmodelled w = (Unmodelled, w)"

definition then_do :: "'a action \<Rightarrow> ('a \<Rightarrow> 'b action) \<Rightarrow> 'b action" where
  "then_do m f w =
     (case m w of
        (Ok x, w') \<Rightarrow> f x w'
      | (Raise e, w') \<Rightarrow> (Raise e, w')
      | (Unmodelled, w') \<Rightarrow> (Unmodelled, w'))"

text \<open>\<open>try: m except Exception as e: h e\<close>\<close>

definition try_except :: "'a action \<Rightarrow> (exn \<Rightarrow> 'a action) \<Rightarrow> 'a action" where
  "try_except m h w =
     (case m w of
        (Ok x, w') \<Rightarrow> (Ok x, w')
      | (Raise e, w') \<Rightarrow> h e w'
      | (Unmodelled, w') \<Rightarrow> (Unmodelled, w'))"

definition now :: "nat action" where
  "now w = (Ok (clock w), w\<lparr>clock := Suc (clock w)\<rparr>)"

text \<open>The ISO-8601 text of a timestamp is represented by the clock reading it renders.\<close>

definition isoformat :: "nat \<Rightarrow> json" where
  "isoformat ts = JInt (int ts)"

text \<open>\<open>await connection.send(text_data=json.dumps(envelope))\<close>\<close>

definition send :: "handle \<Rightarrow> json \<Rightarrow> unit action" where
  "send h env w =
     (case send_fails w h of
        Some m \<Rightarrow> (Raise (SendFailure m), w)
      | None \<Rightarrow> (Ok (), w\<lparr>sent := (sent w)(h := sent w h @ [env])\<rparr>))"

definition modify_db :: "(database \<Rightarrow> database) \<Rightarrow> unit action" where
  "modify_db f w = (Ok (), w\<lparr>db := f (db w)\<rparr>)"

definition modify_consumer :: "handle \<Rightarrow> (consumer \<Rightarrow> consumer) \<Rightarrow> unit action" where
  "modify_consumer h f w = (Ok (), w\<lparr>consumers := (consumers w)(h := f (consumers w h))\<rparr>)"


subsection \<open>The registry dict and the consumer's set of topic names\<close>

text \<open>
  \<open>if t not in d: d[t] = set()\<close> then \<open>d[t].add(h)\<close>; and
  \<open>if t in d: d[t].discard(h); if not d[t]: del d[t]\<close>.
\<close>

definition registry_add :: "string \<Rightarrow> handle \<Rightarrow> unit action" where
  "registry_add t h w =
     (Ok (), w\<lparr>topic_connections :=
                 (topic_connections w)
                   (t \<mapsto> List.insert h (case topic_connections w t of None \<Rightarrow> [] | Some s \<Rightarrow> s))\<rparr>)"

definition registry_remove :: "string \<Rightarrow> handle \<Rightarrow> unit action" where
  "registry_remove t h w =
     (case topic_connections w t of
        None \<Rightarrow> (Ok (), w)
      | Some s \<Rightarrow>
          (if removeAll h s = []
           then (Ok (), w\<lparr>topic_connections := (topic_connections w)(t := None)\<rparr>)
           else (Ok (), w\<lparr>topic_connections := (topic_connections w)(t \<mapsto> removeAll h s)\<rparr>)))"

text \<open>\<open>d[t].discard(h)\<close> alone: a missing key raises, an emptied set stays.\<close>

definition registry_discard :: "string \<Rightarrow> handle \<Rightarrow> unit action" where
  "registry_discard t h w =
     (case topic_connections w t of
        None \<Rightarrow> (Raise (KeyError ([CHR 0x27] @ t @ [CHR 0x27])), w)
      | Some s \<Rightarrow> (Ok (), w\<lparr>topic_connections := (topic_connections w)(t \<mapsto> removeAll h s)\<rparr>))"

text \<open>\<open>del d[t]\<close>\<close>

definition registry_del :: "string \<Rightarrow> unit action" where
  "registry_del t w =
     (case topic_connections w t of
        None \<Rightarrow> (Raise (KeyError ([CHR 0x27] @ t @ [CHR 0x27])), w)
      | Some s \<Rightarrow> (Ok (), w\<lparr>topic_connections := (topic_connections w)(t := None)\<rparr>))"

subsection \<open>Database operations of the consumer\<close>

text \<open>
  Each is wrapped by the source in \<open>try ... except Exception\<close> and returns a value in
  every case. The store refuses a row whose foreign key has no target and a second row
  with a primary key already present (IntegrityError); other store failures are not
  modelled.
\<close>

definition delete_connection :: "string \<Rightarrow> database \<Rightarrow> database" where
  "delete_connection c d =
     d\<lparr>subscriptions := filter (\<lambda>s. s_connection s \<noteq> c) (subscriptions d),
       connections := filter (\<lambda>r. c_id r \<noteq> c) (connections d),
       messages := map (\<lambda>m. if m_publisher_connection m = Some c
                              then m\<lparr>m_publisher_connection := None\<rparr> else m) (messages d)\<rparr>"

definition cleanup_connection :: "handle \<Rightarrow> bool action" where
  "cleanup_connection self w =
     (case connection (consumers w self) of
        None \<Rightarrow> (Ok True, w)
      | Some c \<Rightarrow> (Ok True, w\<lparr>db := delete_connection c (db w)\<rparr>))"

text \<open>\<open>Topic.objects.get_or_create(name=topic_name, defaults={'metadata': {}})\<close>\<close>

definition topics_get_or_create :: "string \<Rightarrow> database \<Rightarrow> database" where
  "topics_get_or_create n d =
     (case find_topic d n of
        Some r \<Rightarrow> d
      | None \<Rightarrow>
          d\<lparr>topics := \<lparr>t_name = n, t_last_published = None, t_message_count = 0,
                        t_subscriber_count = 0\<rparr> # topics d\<rparr>)"

definition get_or_create_topic :: "string \<Rightarrow> string option action" where
  "get_or_create_topic n w = (Ok (Some n), w\<lparr>db := topics_get_or_create n (db w)\<rparr>)"

definition get_topic :: "string \<Rightarrow> string option action" where
  "get_topic n w =
     (case find_topic (db w) n of Some r \<Rightarrow> (Ok (Some n), w) | None \<Rightarrow> (Ok None, w))"

text \<open>
  \<open>TopicSubscription.objects.get_or_create(connection, topic, defaults={'is_active': True})\<close>
  followed by \<open>if not created: subscription.is_active = True; subscription.save()\<close>.
\<close>

definition subscriptions_get_or_create :: "string \<Rightarrow> string \<Rightarrow> database \<Rightarrow> database" where
  "subscriptions_get_or_create c t d =
     (case find_subscription d c t of
        None \<Rightarrow>
          d\<lparr>subscriptions :=
              \<lparr>s_connection = c, s_topic = t, s_is_active = True\<rparr> # subscriptions d\<rparr>
      | Some s \<Rightarrow> set_active c t True d)"

definition subscribe_to_topic :: "handle \<Rightarrow> string \<Rightarrow> json \<Rightarrow> bool action" where
  "subscribe_to_topic self topic cid w =
     (case connection (consumers w self) of
        None \<Rightarrow> (Ok False, w)
      | Some c \<Rightarrow>
          if \<not> connection_exists (db w) c \<or> find_topic (db w) topic = None then (Ok False, w)
          else
            let d1 = subscriptions_get_or_create c topic (db w);
                d2 = update_subscriber_count topic (active_count d1 topic) d1;
                d3 = update_activity c (clock w) d2
            in (Ok True, w\<lparr>db := d3, clock := Suc (clock w)\<rparr>))"

definition unsubscribe_from_topic :: "handle \<Rightarrow> string \<Rightarrow> json \<Rightarrow> bool action" where
  "unsubscribe_from_topic self topic_name cid w =
     (case find_topic (db w) topic_name of
        None \<Rightarrow> (Ok False, w)
      | Some t \<Rightarrow>
          (case connection (consumers w self) of
             None \<Rightarrow> (Ok False, w)
           | Some c \<Rightarrow>
               (case find_subscription (db w) c topic_name of
                  None \<Rightarrow> (Ok False, w)
                | Some s \<Rightarrow>
                    let d1 = set_active c topic_name False (db w);
                        d2 = update_subscriber_count topic_name (active_count d1 topic_name) d1;
                        d3 = update_activity c (clock w) d2
                    in (Ok True, w\<lparr>db := d3, clock := Suc (clock w)\<rparr>))))"

text \<open>
  \<open>Message.objects.create\<close> draws the id and the timestamp, then inserts; the topic's
  counter and timestamp follow; \<open>self.connection.update_activity()\<close> comes last, and
  with no connection object it raises after the row is written, so that \<open>None\<close> is
  returned.
\<close>

definition publish_message :: "handle \<Rightarrow> string \<Rightarrow> json \<Rightarrow> json \<Rightarrow> string option action" where
  "publish_message self topic message_data cid w =
     (let conn = connection (consumers w self);
          mid = uuid_source w (uuid_next w);
          ts = clock w;
          w1 = w\<lparr>clock := Suc (clock w), uuid_next := Suc (uuid_next w)\<rparr>
      in if find_topic (db w) topic = None
            \<or> (case conn of None \<Rightarrow> False | Some c \<Rightarrow> \<not> connection_exists (db w) c)
            \<or> (\<exists>m \<in> set (messages (db w)). m_id m = mid)
         then (Ok None, w1)
         else
           let d1 = (db w)\<lparr>messages :=
                       \<lparr>m_id = mid, m_topic = topic, m_publisher_connection = conn,
                        m_data = message_data, m_published_at = ts,
                        m_metadata = JObj [(''client_id'', cid)]\<rparr> # messages (db w)\<rparr>;
               d2 = increment_message_count topic d1;
               d3 = update_last_published topic (Suc ts) d2
           in (case conn of
                 None \<Rightarrow> (Ok None, w1\<lparr>db := d3, clock := Suc (Suc ts)\<rparr>)
               | Some c \<Rightarrow>
                   (Ok (Some mid),
                    w1\<lparr>db := update_activity c (Suc (Suc ts)) d3, clock := Suc (Suc (Suc ts))\<rparr>)))"

text \<open>
  \<open>Message.objects.filter(topic=topic).order_by('-published_at')\<close>. Among rows with
  the same timestamp the store is free to choose; here the row inserted earlier comes
  first.
\<close>

definition recent_messages :: "database \<Rightarrow> string \<Rightarrow> message_row list" where
  "recent_messages d t = rev (sort_key m_published_at (filter (\<lambda>m. m_topic m = t) (messages d)))"

definition history_envelope :: "string \<Rightarrow> message_row \<Rightarrow> json" where
  "history_envelope topic m =
     JObj [(''type'', JStr ''message''),
           (''topic'', JStr topic),
           (''message'', JObj [(''id'', JStr (m_id m)),
                               (''payload'', m_data m),
                               (''timestamp'', isoformat (m_published_at m))])]"

text \<open>
  The queryset refuses a negative slice bound, and the store refuses a LIMIT that is not
  a signed 64-bit integer; either exception gives the empty list.
\<close>

definition get_last_n_messages :: "string \<Rightarrow> int \<Rightarrow> json list action" where
  "get_last_n_messages topic last_n w =
     (if last_n < 0 \<or> 9223372036854775807 < last_n then (Ok [], w)
      else (Ok (map (history_envelope topic) (take (nat last_n) (recent_messages (db w) topic))), w))"

definition update_connection_activity :: "handle \<Rightarrow> bool action" where
  "update_connection_activity self w =
     (case connection (consumers w self) of
        None \<Rightarrow> (Ok True, w)
      | Some c \<Rightarrow> (Ok True, w\<lparr>db := update_activity c (clock w) (db w), clock := Suc (clock w)\<rparr>))"


subsection \<open>Envelopes and sending\<close>

definition send_error :: "handle \<Rightarrow> string \<Rightarrow> json \<Rightarrow> unit action" where
  "send_error self error_message request_id =
     then_do now (\<lambda>ts.
       send self
         (JObj ([(''type'', JStr ''error''),
                 (''error'', JStr error_message),
                 (''timestamp'', isoformat ts)]
                @ (if truthy request_id then [(''request_id'', request_id)] else []))))"

fun send_all :: "handle \<Rightarrow> json list \<Rightarrow> unit action" where
  "send_all self [] = ok ()"
| "send_all self (message_data # rest) =
     then_do (send self message_data) (\<lambda>_. send_all self rest)"

text \<open>
  \<open>send_last_n_messages_async\<close> receives \<open>request_id\<close> and sends what
  \<open>get_last_n_messages\<close> built; any exception ends the loop and is only printed.
\<close>

definition send_last_n_messages_async :: "handle \<Rightarrow> string \<Rightarrow> int \<Rightarrow> json \<Rightarrow> unit action" where
  "send_last_n_messages_async self topic last_n request_id =
     try_except
       (then_do (get_last_n_messages topic last_n) (\<lambda>messages_data. send_all self messages_data))
       (\<lambda>e. ok ())"

text \<open>
  The loop of \<open>broadcast_message\<close> over the copy of the topic's set: the publisher is
  skipped, a send that raises discards the connection from the live set, and the loop
  goes on.
\<close>

fun broadcast_loop :: "handle \<Rightarrow> string \<Rightarrow> json \<Rightarrow> handle list \<Rightarrow> unit action" where
  "broadcast_loop self topic_name broadcast_data [] = ok ()"
| "broadcast_loop self topic_name broadcast_data (c # rest) =
     then_do
       (if c \<noteq> self
        then try_except (send c broadcast_data) (\<lambda>e. registry_discard topic_name c)
        else ok ())
       (\<lambda>_. broadcast_loop self topic_name broadcast_data rest)"

definition broadcast_message :: "handle \<Rightarrow> string \<Rightarrow> json \<Rightarrow> string \<Rightarrow> json \<Rightarrow> unit action" where
  "broadcast_message self topic_name message_data message_id publisher_client_id =
     try_except
       (case message_data of
          JObj kvs \<Rightarrow>
            then_do now (\<lambda>ts w.
              (case topic_connections w topic_name of
                 Some active_connections \<Rightarrow>
                   broadcast_loop self topic_name
                     (JObj [(''type'', JStr ''message''),
                            (''topic'', JStr topic_name),
                            (''message'', JObj [(''id'', JStr message_id),
                                                (''payload'', dget kvs ''payload'' (JObj [])),
                                                (''timestamp'', isoformat ts)]),
                            (''publisher_client_id'', publisher_client_id)])
                     active_connections w
               | None \<Rightarrow> (Ok (), w)))
        | v \<Rightarrow> raise (no_attribute v ''get''))
       (\<lambda>e. ok ())"

text \<open>
  The loop of \<open>notify_topic_deleted\<close> iterates over the copy \<open>connections\<close> and, when
  a send raises, discards the connection from that same copy. A Python set iterator
  checks the set's size at every step, the last one included, so the step after a
  discard raises RuntimeError.
\<close>

fun notify_loop :: "json \<Rightarrow> handle list \<Rightarrow> unit action" where
  "notify_loop notification_data [] = ok ()"
| "notify_loop notification_data (c # rest) =
     then_do
       (try_except (then_do (send c notification_data) (\<lambda>_. ok True)) (\<lambda>e. ok False))
       (\<lambda>delivered.
          if delivered then notify_loop notification_data rest
          else raise (RuntimeError ''Set changed size during iteration''))"

definition notify_topic_deleted :: "string \<Rightarrow> unit action" where
  "notify_topic_deleted topic_name =
     try_except
       (\<lambda>w. case topic_connections w topic_name of
               None \<Rightarrow> (Ok (), w)
             | Some conns \<Rightarrow>
                 then_do now (\<lambda>ts.
                   then_do
                     (notify_loop
                        (JObj [(''type'', JStr ''info''),
                               (''topic'', JStr topic_name),
                               (''msg'', JStr ''topic_deleted''),
                               (''ts'', isoformat ts)])
                        conns)
                     (\<lambda>_. registry_del topic_name)) w)
       (\<lambda>e. ok ())"

subsection \<open>The four handlers\<close>

text \<open>\<open>last_n > 0\<close>: integers and booleans compare with 0, anything else raises.\<close>

fun greater_than_zero :: "json \<Rightarrow> bool action" where
  "greater_than_zero (JInt i) = ok (0 < i)"
| "greater_than_zero (JBool b) = ok b"
| "greater_than_zero v =
     raise (TypeError ([CHR 0x27, CHR ''>'', CHR 0x27] @ '' not supported between instances of ''
                       @ [CHR 0x27] @ type_name v @ [CHR 0x27] @ '' and ''
                       @ [CHR 0x27] @ ''int'' @ [CHR 0x27]))"

fun slice_bound :: "json \<Rightarrow> int" where
  "slice_bound (JInt i) = i"
| "slice_bound (JBool b) = (if b then 1 else 0)"
| "slice_bound v = 0"

definition handle_subscribe :: "handle \<Rightarrow> (string \<times> json) list \<Rightarrow> json \<Rightarrow> unit action" where
  "handle_subscribe self data request_id =
     try_except
       (let topic_name = dget data ''topic'' JNull;
            cid = dget data ''client_id'' JNull;
            last_n = dget data ''last_n'' (JInt 0)
        in if \<not> truthy topic_name then send_error self ''Missing topic name'' request_id
           else if \<not> truthy cid then send_error self ''Missing client_id'' request_id
           else (case topic_name of
              JStr tn \<Rightarrow>
                then_do (modify_consumer self (\<lambda>c. c\<lparr>client_id := cid\<rparr>)) (\<lambda>_.
                then_do (get_or_create_topic tn) (\<lambda>topic.
                  case topic of
                    None \<Rightarrow> send_error self (''Failed to get/create topic: '' @ tn) request_id
                  | Some t \<Rightarrow>
                      then_do (subscribe_to_topic self t cid) (\<lambda>success.
                        if \<not> success
                        then send_error self (''Failed to subscribe to topic: '' @ tn) request_id
                        else
                          then_do (modify_consumer self
                                     (\<lambda>c. c\<lparr>subscribed_topics := List.insert tn (subscribed_topics c)\<rparr>)) (\<lambda>_.
                          then_do (registry_add tn self) (\<lambda>_.
                          then_do now (\<lambda>ts.
                          then_do (send self
                                     (JObj [(''type'', JStr ''subscribed''),
                                            (''topic'', JStr tn),
                                            (''client_id'', cid),
                                            (''request_id'', request_id),
                                            (''status'', JStr ''success''),
                                            (''timestamp'', isoformat ts)])) (\<lambda>_.
                          then_do (greater_than_zero last_n) (\<lambda>positive.
                            if positive
                            then send_last_n_messages_async self t (slice_bound last_n) request_id
                            else ok ()))))))))
            | _ \<Rightarrow> unmodelled))
       (\<lambda>e. send_error self (''Subscribe error: '' @ str_exn e) request_id)"

definition handle_unsubscribe :: "handle \<Rightarrow> (string \<times> json) list \<Rightarrow> json \<Rightarrow> unit action" where
  "handle_unsubscribe self data request_id =
     try_except
       (let topic_name = dget data ''topic'' JNull;
            cid = dget data ''client_id'' JNull
        in if \<not> truthy topic_name then send_error self ''Missing topic name'' request_id
           else if \<not> truthy cid then send_error self ''Missing client_id'' request_id
           else (case topic_name of
              JStr tn \<Rightarrow>
                then_do (unsubscribe_from_topic self tn cid) (\<lambda>success.
                  if \<not> success
                  then send_error self (''Failed to unsubscribe from topic: '' @ tn) request_id
                  else
                    then_do (modify_consumer self
                               (\<lambda>c. c\<lparr>subscribed_topics := removeAll tn (subscribed_topics c)\<rparr>)) (\<lambda>_.
                    then_do (registry_remove tn self) (\<lambda>_.
                    then_do now (\<lambda>ts.
                      send self
                        (JObj [(''type'', JStr ''unsubscribed''),
                               (''topic'', JStr tn),
                               (''client_id'', cid),
                               (''request_id'', request_id),
                               (''status'', JStr ''success''),
                               (''timestamp'', isoformat ts)])))))
            | _ \<Rightarrow> unmodelled))
       (\<lambda>e. send_error self (''Unsubscribe error: '' @ str_exn e) request_id)"

definition handle_publish :: "handle \<Rightarrow> (string \<times> json) list \<Rightarrow> json \<Rightarrow> unit action" where
  "handle_publish self data request_id =
     try_except
       (let topic_name = dget data ''topic'' JNull;
            message_data = dget data ''message'' (JObj []);
            cid = dget data ''client_id'' JNull
        in if \<not> truthy topic_name then send_error self ''Missing topic name'' request_id
           else if \<not> truthy message_data then send_error self ''Missing message data'' request_id
           else if \<not> truthy cid then send_error self ''Missing client_id'' request_id
           else (case topic_name of
              JStr tn \<Rightarrow>
                then_do (get_topic tn) (\<lambda>topic.
                  case topic of
                    None \<Rightarrow> send_error self (''Topic not found: '' @ tn) request_id
                  | Some t \<Rightarrow>
                      then_do (publish_message self t message_data cid) (\<lambda>message_id.
                        case message_id of
                          None \<Rightarrow>
                            send_error self (''Failed to publish message to topic: '' @ tn) request_id
                        | Some mid \<Rightarrow>
                            then_do now (\<lambda>ts.
                            then_do (send self
                                       (JObj [(''type'', JStr ''published''),
                                              (''topic'', JStr tn),
                                              (''message_id'', JStr mid),
                                              (''client_id'', cid),
                                              (''request_id'', request_id),
                                              (''status'', JStr ''success''),
                                              (''timestamp'', isoformat ts)])) (\<lambda>_.
                              broadcast_message self tn message_data mid cid))))
            | _ \<Rightarrow> unmodelled))
       (\<lambda>e. send_error self (''Publish error: '' @ str_exn e) request_id)"

definition handle_ping :: "handle \<Rightarrow> (string \<times> json) list \<Rightarrow> json \<Rightarrow> unit action" where
  "handle_ping self data request_id =
     try_except
       (then_do (update_connection_activity self) (\<lambda>_.
        then_do now (\<lambda>ts.
          send self
            (JObj [(''type'', JStr ''pong''),
                   (''request_id'', request_id),
                   (''timestamp'', isoformat ts)]))))
       (\<lambda>e. send_error self (''Ping error: '' @ str_exn e) request_id)"

subsection \<open>Receiving a frame, disconnecting\<close>

text \<open>
  \<open>uuid.UUID(x)\<close> raises ValueError on a string it does not accept, and
  \<open>is_valid_uuid\<close> catches that one exception only; on a value that is not a
  string the constructor raises AttributeError at \<open>hex.replace\<close>.
\<close>

definition is_valid_uuid :: "json \<Rightarrow> bool action" where
  "is_valid_uuid uuid_string w =
     (case uuid_string of
        JStr s \<Rightarrow> (Ok (uuid_parses w s), w)
      | JNull \<Rightarrow>
          (Raise (TypeError ''one of the hex, bytes, bytes_le, fields, or int arguments must be given''), w)
      | v \<Rightarrow> (Raise (no_attribute v ''replace''), w))"

text \<open>The text a format string gives for the message type (strings, None, booleans).\<close>

fun format_value :: "json \<Rightarrow> string option" where
  "format_value (JStr s) = Some s"
| "format_value JNull = Some ''None''"
| "format_value (JBool b) = Some (if b then ''True'' else ''False'')"
| "format_value v = None"

datatype frame = Malformed string | Decoded json

definition receive :: "handle \<Rightarrow> frame \<Rightarrow> unit action" where
  "receive self text_data =
     try_except
       (case text_data of
          Malformed m \<Rightarrow> raise (JSONDecodeError m)
        | Decoded (JObj data) \<Rightarrow>
            (let message_type = dget data ''type'' JNull;
                 request_id = dget data ''request_id'' JNull
             in then_do (if \<not> truthy request_id then ok False else is_valid_uuid request_id)
                  (\<lambda>valid.
                     if \<not> valid then send_error self ''Invalid or missing request_id'' JNull
                     else if message_type = JStr ''subscribe'' then handle_subscribe self data request_id
                     else if message_type = JStr ''unsubscribe''
                       then handle_unsubscribe self data request_id
                     else if message_type = JStr ''publish'' then handle_publish self data request_id
                     else if message_type = JStr ''ping'' then handle_ping self data request_id
                     else (case format_value message_type of
                             Some t \<Rightarrow>
                               send_error self (''Unknown message type: '' @ t) request_id
                           | None \<Rightarrow> unmodelled)))
        | Decoded v \<Rightarrow> raise (no_attribute v ''get''))
       (\<lambda>e. case e of
               JSONDecodeError m \<Rightarrow> send_error self ''Invalid JSON format'' JNull
             | _ \<Rightarrow> send_error self (''Internal error: '' @ str_exn e) JNull)"

fun detach_all :: "handle \<Rightarrow> string list \<Rightarrow> unit action" where
  "detach_all self [] = ok ()"
| "detach_all self (topic_name # rest) =
     then_do (registry_remove topic_name self) (\<lambda>_. detach_all self rest)"

definition disconnect :: "handle \<Rightarrow> unit action" where
  "disconnect self w =
     (case connection_id (consumers w self) of
        None \<Rightarrow> (Ok (), w)
      | Some cid \<Rightarrow>
          if cid = [] then (Ok (), w)
          else then_do (detach_all self (subscribed_topics (consumers w self)))
                 (\<lambda>_. then_do (cleanup_connection self) (\<lambda>_. ok ())) w)"


section \<open>The HTTP control plane (pubsub/views.py)\<close>

record response =
  status :: nat
  body :: json

definition health_check :: "nat \<Rightarrow> database \<Rightarrow> response" where
  "health_check uptime_seconds d =
     \<lparr>status = 200,
      body = JObj [(''uptime_sec'', JInt (int uptime_seconds)),
                   (''topics'', JInt (int (length (topics d)))),
                   (''subscribers'', JInt (int (length (subscriptions d))))]\<rparr>"

definition get_stats :: "database \<Rightarrow> response" where
  "get_stats d =
     \<lparr>status = 200,
      body = JObj [(''topics'',
                    JObj (map (\<lambda>topic.
                            (t_name topic,
                             JObj [(''messages'',
                                    JInt (int (length (filter (\<lambda>m. m_topic m = t_name topic)
                                                              (messages d))))),
                                   (''subscribers'',
                                    JInt (int (subscription_count d (t_name topic))))]))
                          (topics d)))]\<rparr>"

definition list_topics :: "database \<Rightarrow> response" where
  "list_topics d =
     \<lparr>status = 200,
      body = JObj [(''topics'',
                    JArr (map (\<lambda>topic.
                            JObj [(''name'', JStr (t_name topic)),
                                  (''subscribers'',
                                   JInt (int (subscription_count d (t_name topic))))])
                          (topics d)))]\<rparr>"

text \<open>
  \<open>delete_topic\<close> deletes the topic's subscriptions, its messages and the topic, then
  starts a thread that runs \<open>notify_topic_deleted\<close>; the model runs the notification
  to its end before the response is returned.
\<close>

definition delete_topic_rows :: "string \<Rightarrow> database \<Rightarrow> database" where
  "delete_topic_rows topic_name d =
     d\<lparr>subscriptions := filter (\<lambda>s. s_topic s \<noteq> topic_name) (subscriptions d),
       messages := filter (\<lambda>m. m_topic m \<noteq> topic_name) (messages d),
       topics := filter (\<lambda>r. t_name r \<noteq> topic_name) (topics d)\<rparr>"

definition delete_topic :: "string \<Rightarrow> response action" where
  "delete_topic topic_name w =
     (case find_topic (db w) topic_name of
        None \<Rightarrow> (Ok \<lparr>status = 404, body = JObj [(''error'', JStr ''Topic not found'')]\<rparr>, w)
      | Some topic \<Rightarrow>
          then_do (modify_db (delete_topic_rows topic_name)) (\<lambda>_.
          then_do (try_except (notify_topic_deleted topic_name) (\<lambda>e. ok ())) (\<lambda>_.
            ok \<lparr>status = 200,
                body = JObj [(''status'', JStr ''deleted''), (''topic'', JStr topic_name)]\<rparr>)) w)"

text \<open>
  The names bound in the module views.py: its imports (lines 1 to 22), its globals and
  its functions. A name that is not among them raises NameError when it is evaluated.
\<close>

definition views_names :: "string list" where
  "views_names =
     [''status'', ''api_view'', ''permission_classes'', ''AllowAny'', ''Response'',
      ''PageNumberPagination'', ''timezone'', ''transaction'', ''Count'', ''Q'', ''render'',
      ''csrf_exempt'', ''JsonResponse'', ''async_to_sync'', ''get_channel_layer'', ''json'',
      ''time'', ''Topic'', ''Connection'', ''TopicSubscription'', ''Message'',
      ''TopicSerializer'', ''TopicCreateSerializer'', ''TopicDetailSerializer'',
      ''TopicListResponseSerializer'', ''TopicCreateResponseSerializer'',
      ''TopicDeleteResponseSerializer'', ''SYSTEM_START_TIME'', ''TopicPagination'',
      ''health_check'', ''get_stats'', ''list_topics'', ''create_topic'', ''get_topic_detail'',
      ''delete_topic'', ''get_topic_subscribers'', ''get_topic_messages'', ''dashboard'',
      ''websocket_test'', ''publisher_view'', ''subscriber_view'']"

definition global_name :: "string \<Rightarrow> exn + unit" where
  "global_name n =
     (if n \<in> set views_names then Inr ()
      else Inl (NameError (''name '' @ [CHR 0x27] @ n @ [CHR 0x27] @ '' is not defined'')))"

text \<open>
  A query parameter after \<open>int(request.query_params.get(k, default))\<close>: not given, the
  text of an integer, or a text that \<open>int\<close> refuses.
\<close>

datatype query_param = NotGiven | Number int | NotANumber string

fun int_param :: "query_param \<Rightarrow> int \<Rightarrow> exn + int" where
  "int_param NotGiven d = Inr d"
| "int_param (Number i) d = Inr i"
| "int_param (NotANumber s) d =
     Inl (ValueError (''invalid literal for int() with base 10: '' @ [CHR 0x27] @ s @ [CHR 0x27]))"

text \<open>\<open>queryset[start:stop]\<close>: a negative bound is refused.\<close>

definition slice :: "'a list \<Rightarrow> int \<Rightarrow> int \<Rightarrow> exn + 'a list" where
  "slice xs start stop =
     (if start < 0 \<or> stop < 0 then Inl (ValueError ''Negative indexing is not supported.'')
      else Inr (take (nat stop - nat start) (drop (nat start) xs)))"

text \<open>The fields of \<open>MessageSerializer\<close> in serializers.py.\<close>

definition message_json :: "message_row \<Rightarrow> json" where
  "message_json m =
     JObj [(''id'', JStr (m_id m)),
           (''topic_name'', JStr (m_topic m)),
           (''publisher_id'', (case m_publisher_connection m of None \<Rightarrow> JNull | Some c \<Rightarrow> JStr c)),
           (''data'', m_data m),
           (''published_at'', isoformat (m_published_at m)),
           (''delivery_attempts'', JInt 0),
           (''max_delivery_attempts'', JInt 3),
           (''metadata'', m_metadata m)]"

definition get_topic_messages :: "database \<Rightarrow> query_param \<Rightarrow> query_param \<Rightarrow> string \<Rightarrow> response" where
  "get_topic_messages d limit_param offset_param topic_name =
     (case find_topic d topic_name of
        None \<Rightarrow> \<lparr>status = 404, body = JObj [(''error'', JStr ''Topic not found'')]\<rparr>
      | Some topic \<Rightarrow>
          (case (case int_param limit_param 50 of
                   Inl e \<Rightarrow> Inl e
                 | Inr l \<Rightarrow>
                     (let limit = min l 100 in
                      case int_param offset_param 0 of
                        Inl e \<Rightarrow> Inl e
                      | Inr offset \<Rightarrow>
                          (case slice (recent_messages d topic_name) offset (offset + limit) of
                             Inl e \<Rightarrow> Inl e
                           | Inr msgs \<Rightarrow>
                               (case global_name ''MessageSerializer'' of
                                  Inl e \<Rightarrow> Inl e
                                | Inr _ \<Rightarrow>
                                    Inr \<lparr>status = 200,
                                         body = JObj [(''topic'', JStr topic_name),
                                                      (''messages'', JArr (map message_json msgs)),
                                                      (''total_count'',
                                                       JInt (int (t_message_count topic))),
                                                      (''limit'', JInt limit),
                                                      (''offset'', JInt offset)]\<rparr>)))) of
             Inl e \<Rightarrow>
               \<lparr>status = 500,
                body = JObj [(''error'', JStr (''Failed to get topic messages: '' @ str_exn e))]\<rparr>
           | Inr r \<Rightarrow> r))"


section \<open>Store constraints and an example world\<close>

text \<open>
  \<open>unique_together = ['connection', 'topic']\<close> of \<open>TopicSubscription.Meta\<close>: the
  store holds at most one subscription row for a pair. \<open>pair_rows\<close> are the rows of one
  pair.
\<close>

definition unique_together :: "database \<Rightarrow> bool" where
  "unique_together d = distinct (map (\<lambda>s. (s_connection s, s_topic s)) (subscriptions d))"

definition pair_rows :: "database \<Rightarrow> string \<Rightarrow> string \<Rightarrow> subscription_row list" where
  "pair_rows d c t = filter (\<lambda>s. s_connection s = c \<and> s_topic s = t) (subscriptions d)"

text \<open>
  The pairs (connection, topic) of the subscription rows, in the order of the rows; an
  action keeps the rows when, from every world, the pairs afterwards are the pairs before
  with new ones in front of them.
\<close>

definition subscription_keys :: "database \<Rightarrow> (string \<times> string) list" where
  "subscription_keys d = map (\<lambda>s. (s_connection s, s_topic s)) (subscriptions d)"

definition keeps_rows :: "'a action \<Rightarrow> bool" where
  "keeps_rows m = (\<forall>w. \<exists>new. subscription_keys (db (snd (m w))) = new @ subscription_keys (db w))"

text \<open>
  Three connected consumers. Consumers 2 and 3 are subscribed to the topic news, which
  has one message; the socket of consumer 3 raises on every send.
\<close>

definition example_db :: database where
  "example_db =
     \<lparr>topics = [\<lparr>t_name = ''news'', t_last_published = Some 5, t_message_count = 1,
                 t_subscriber_count = 2\<rparr>],
      connections = [\<lparr>c_id = ''conn-1'', c_last_activity = 0\<rparr>,
                     \<lparr>c_id = ''conn-2'', c_last_activity = 0\<rparr>,
                     \<lparr>c_id = ''conn-3'', c_last_activity = 0\<rparr>],
      subscriptions = [\<lparr>s_connection = ''conn-2'', s_topic = ''news'', s_is_active = True\<rparr>,
                       \<lparr>s_connection = ''conn-3'', s_topic = ''news'', s_is_active = True\<rparr>],
      messages = [\<lparr>m_id = ''msg-1'', m_topic = ''news'', m_publisher_connection = Some ''conn-1'',
                   m_data = JObj [(''payload'', JStr ''hello'')], m_published_at = 5,
                   m_metadata = JObj [(''client_id'', JStr ''alice'')]\<rparr>]\<rparr>"

definition example_consumer :: "handle \<Rightarrow> consumer" where
  "example_consumer h =
     (if h = 1 then \<lparr>connection_id = Some ''conn-1'', client_id = JNull, subscribed_topics = [],
                     connection = Some ''conn-1''\<rparr>
      else if h = 2 then \<lparr>connection_id = Some ''conn-2'', client_id = JStr ''bob'',
                          subscribed_topics = [''news''], connection = Some ''conn-2''\<rparr>
      else if h = 3 then \<lparr>connection_id = Some ''conn-3'', client_id = JStr ''carol'',
                          subscribed_topics = [''news''], connection = Some ''conn-3''\<rparr>
      else \<lparr>connection_id = None, client_id = JNull, subscribed_topics = [],
            connection = None\<rparr>)"

definition example_world :: world where
  "example_world =
     \<lparr>db = example_db,
      topic_connections = [''news'' \<mapsto> [2, 3]],
      consumers = example_consumer,
      sent = (\<lambda>h. []),
      send_fails = (\<lambda>h. if h = 3 then Some ''socket closed'' else None),
      clock = 10,
      uuid_next = 0,
      uuid_source = (\<lambda>n. ''msg-new-'' @ replicate n (CHR ''x'')),
      uuid_parses = (\<lambda>s. length s = 36)\<rparr>"

definition example_request_id :: string where
  "example_request_id = ''00000000-0000-4000-8000-000000000001''"


section \<open>Basic facts about the store and the sockets\<close>

lemmas monad_defs = ok_def raise_def unmodelled_def then_do_def try_except_def now_def send_def
  modify_db_def modify_consumer_def

lemmas example_defs = example_db_def example_consumer_def example_world_def example_request_id_def

lemmas exec_defs = monad_defs isoformat_def no_attribute_def dget_def
  find_topic_def connection_exists_def find_subscription_def active_count_def subscription_count_def
  update_subscriber_count_def increment_message_count_def update_last_published_def update_activity_def
  set_active_def registry_add_def registry_remove_def registry_discard_def registry_del_def
  delete_connection_def cleanup_connection_def topics_get_or_create_def get_or_create_topic_def
  get_topic_def subscriptions_get_or_create_def subscribe_to_topic_def unsubscribe_from_topic_def
  publish_message_def recent_messages_def history_envelope_def get_last_n_messages_def
  update_connection_activity_def send_error_def send_last_n_messages_async_def broadcast_message_def
  notify_topic_deleted_def handle_subscribe_def handle_unsubscribe_def handle_publish_def
  handle_ping_def is_valid_uuid_def receive_def disconnect_def delete_topic_rows_def delete_topic_def
  Let_def

lemma send_all_ok:
  "send_fails w self = None \<Longrightarrow>
   send_all self ms w = (Ok (), w\<lparr>sent := (sent w)(self := sent w self @ ms)\<rparr>)"
proof (induction ms arbitrary: w)
  case Nil
  then show ?case by (simp add: ok_def)
next
  case (Cons m ms)
  then show ?case by (simp add: then_do_def send_def fun_upd_def cong: if_cong)
qed

lemma find_map_subscriber_count:
  "find (\<lambda>r. t_name r = t) (map (\<lambda>r. if t_name r = t then r\<lparr>t_subscriber_count := k\<rparr> else r) rs) =
     map_option (\<lambda>r. r\<lparr>t_subscriber_count := k\<rparr>) (find (\<lambda>r. t_name r = t) rs)"
  by (induction rs) auto

lemma find_topic_update_subscriber_count:
  "find_topic (update_subscriber_count t k d) t =
     map_option (\<lambda>r. r\<lparr>t_subscriber_count := k\<rparr>) (find_topic d t)"
  by (simp add: find_topic_def update_subscriber_count_def find_map_subscriber_count)

lemma find_topic_update_activity [simp]:
  "find_topic (update_activity c ts d) t = find_topic d t"
  by (simp add: find_topic_def update_activity_def)

lemma active_count_update_activity [simp]:
  "active_count (update_activity c ts d) t = active_count d t"
  by (simp add: active_count_def update_activity_def)

lemma active_count_update_subscriber_count [simp]:
  "active_count (update_subscriber_count t' k d) t = active_count d t"
  by (simp add: active_count_def update_subscriber_count_def)

lemma find_topic_set_active [simp]:
  "find_topic (set_active c t' b d) t = find_topic d t"
  by (simp add: find_topic_def set_active_def)

lemma find_topic_subscriptions_get_or_create [simp]:
  "find_topic (subscriptions_get_or_create c t' d) t = find_topic d t"
  by (simp add: subscriptions_get_or_create_def find_topic_def set_active_def split: option.split)

lemma find_topic_topics_get_or_create [simp]:
  "find_topic (topics_get_or_create n d) n \<noteq> None"
  by (simp add: topics_get_or_create_def find_topic_def split: option.split)

lemma connection_exists_map: "connection_exists d c \<longleftrightarrow> c \<in> set (map c_id (connections d))"
  by (auto simp: connection_exists_def)

lemma map_c_id_update_activity [simp]:
  "map c_id (connections (update_activity c' ts d)) = map c_id (connections d)"
  by (simp add: update_activity_def comp_def if_distrib cong: if_cong)

lemma connection_exists_update_activity [simp]:
  "connection_exists (update_activity c' ts d) c = connection_exists d c"
  by (simp only: connection_exists_map map_c_id_update_activity)

lemma connection_exists_topics_get_or_create [simp]:
  "connection_exists (topics_get_or_create n d) c = connection_exists d c"
  by (simp add: connection_exists_def topics_get_or_create_def split: option.split)

lemma messages_unchanged [simp]:
  "messages (update_activity c ts d) = messages d"
  "messages (update_subscriber_count t k d) = messages d"
  "messages (set_active c t b d) = messages d"
  "messages (subscriptions_get_or_create c t d) = messages d"
  "messages (topics_get_or_create t d) = messages d"
  by (simp_all add: update_activity_def update_subscriber_count_def set_active_def
        subscriptions_get_or_create_def topics_get_or_create_def split: option.split)

lemma recent_messages_unchanged [simp]:
  "recent_messages (update_activity c ts d) t = recent_messages d t"
  "recent_messages (update_subscriber_count t' k d) t = recent_messages d t"
  "recent_messages (set_active c t' b d) t = recent_messages d t"
  "recent_messages (subscriptions_get_or_create c t' d) t = recent_messages d t"
  "recent_messages (topics_get_or_create t' d) t = recent_messages d t"
  by (simp_all add: recent_messages_def)

lemma handle_subscribe_run:
  assumes "dget data ''topic'' JNull = JStr tn" "tn \<noteq> []" 
      "truthy (dget data ''client_id'' JNull)"
      "dget data ''last_n'' (JInt 0) = JInt n"
      "connection (consumers w self) = Some c" "connection_exists (db w) c"
      "send_fails w self = None"
  shows "handle_subscribe self data rid w =
     (Ok (),
      w\<lparr>db := update_activity c (clock w)
                (update_subscriber_count tn
                   (active_count (subscriptions_get_or_create c tn (topics_get_or_create tn (db w))) tn)
                   (subscriptions_get_or_create c tn (topics_get_or_create tn (db w)))),
        consumers := (consumers w)(self := (consumers w self)
                        \<lparr>client_id := dget data ''client_id'' JNull,
                         subscribed_topics := List.insert tn (subscribed_topics (consumers w self))\<rparr>),
        topic_connections := (topic_connections w)
              (tn \<mapsto> List.insert self (case topic_connections w tn of None \<Rightarrow> [] | Some s \<Rightarrow> s)),
        clock := Suc (Suc (clock w)),
        sent := (sent w)(self := sent w self @ [JObj [(''type'', JStr ''subscribed''),
                                            (''topic'', JStr tn),
                                            (''client_id'', dget data ''client_id'' JNull),
                                            (''request_id'', rid),
                                            (''status'', JStr ''success''),
                                            (''timestamp'', isoformat (Suc (clock w)))]]
               @ (if 0 < n \<and> n \<le> 9223372036854775807
                  then map (history_envelope tn) (take (nat n) (recent_messages (db w) tn)) else []))\<rparr>)"
  using assms
  apply (simp add: handle_subscribe_def monad_defs get_or_create_topic_def subscribe_to_topic_def registry_add_def Let_def
    send_last_n_messages_async_def get_last_n_messages_def send_all_ok)
  done


lemma find_subscription_unchanged [simp]:
  "find_subscription (update_activity c' ts d) c t = find_subscription d c t"
  "find_subscription (update_subscriber_count t' k d) c t = find_subscription d c t"
  "find_subscription (topics_get_or_create t' d) c t = find_subscription d c t"
  by (simp_all add: find_subscription_def update_activity_def update_subscriber_count_def
        topics_get_or_create_def split: option.split)

lemma find_set_active:
  "find (\<lambda>s. s_connection s = c \<and> s_topic s = t)
        (map (\<lambda>s. if s_connection s = c \<and> s_topic s = t then s\<lparr>s_is_active := b\<rparr> else s) ss) =
   map_option (\<lambda>s. s\<lparr>s_is_active := b\<rparr>) (find (\<lambda>s. s_connection s = c \<and> s_topic s = t) ss)"
  by (induction ss) auto

lemma find_subscription_set_active:
  "find_subscription (set_active c t b d) c t =
     map_option (\<lambda>s. s\<lparr>s_is_active := b\<rparr>) (find_subscription d c t)"
  by (simp add: find_subscription_def set_active_def find_set_active)

lemma find_subscription_get_or_create:
  "\<exists>s. find_subscription (subscriptions_get_or_create c t d) c t = Some s \<and> s_is_active s"
proof (cases "find_subscription d c t")
  case None
  then show ?thesis
    by (simp add: subscriptions_get_or_create_def find_subscription_def)
next
  case (Some s)
  then show ?thesis
    by (simp add: subscriptions_get_or_create_def find_subscription_set_active)
qed

lemma topic_row_after_recount:
  "find_topic d t \<noteq> None \<Longrightarrow>
   \<exists>r. find_topic (update_activity c ts (update_subscriber_count t (active_count d t) d)) t = Some r
       \<and> t_subscriber_count r
           = active_count (update_activity c ts (update_subscriber_count t (active_count d t) d)) t"
  by (auto simp: find_topic_update_subscriber_count)


lemma subscriptions_unchanged [simp]:
  "subscriptions (update_activity c ts d) = subscriptions d"
  "subscriptions (update_subscriber_count t k d) = subscriptions d"
  "subscriptions (topics_get_or_create t d) = subscriptions d"
  by (simp_all add: update_activity_def update_subscriber_count_def topics_get_or_create_def
        split: option.split)

lemma connection_exists_unchanged [simp]:
  "connection_exists (update_subscriber_count t k d) c = connection_exists d c"
  "connection_exists (set_active c' t b d) c = connection_exists d c"
  "connection_exists (subscriptions_get_or_create c' t d) c = connection_exists d c"
  by (simp_all add: connection_exists_def update_subscriber_count_def set_active_def
        subscriptions_get_or_create_def split: option.split)

lemma keys_set_active:
  "map (\<lambda>s. (s_connection s, s_topic s))
       (map (\<lambda>s. if s_connection s = c \<and> s_topic s = t then s\<lparr>s_is_active := b\<rparr> else s) ss)
   = map (\<lambda>s. (s_connection s, s_topic s)) ss"
  by (induction ss) auto

lemma keys_of_set_active:
  "map (\<lambda>s. (s_connection s, s_topic s)) (subscriptions (set_active c t b d))
   = map (\<lambda>s. (s_connection s, s_topic s)) (subscriptions d)"
  unfolding set_active_def by (simp del: map_map add: keys_set_active)

lemma find_SomeD: "find P xs = Some x \<Longrightarrow> x \<in> set xs \<and> P x"
  by (induction xs) (auto split: if_splits)

section \<open>Subscribing without history\<close>

text \<open>
  Claim C10. A subscribe request whose \<open>last_n\<close> is 0 or a negative integer (or is
  absent, the default being 0) is not rejected: on a connected consumer whose socket
  takes frames, with a non-empty topic name and a client id, the handler returns
  normally, the one frame it sends is the \<open>subscribed\<close> acknowledgement, so that no
  history envelope is emitted, and the subscription is made as usual: the row of the
  pair exists and is active, the topic's subscriber count is the recount, the consumer
  is in the topic's registry set and the topic is in the consumer's own set.
\<close>

theorem handle_subscribe_no_history:
  assumes "dget data ''topic'' JNull = JStr tn" and "tn \<noteq> []"
    and "truthy (dget data ''client_id'' JNull)"
    and "dget data ''last_n'' (JInt 0) = JInt n" and "n \<le> 0"
    and "connection (consumers w self) = Some c" and "connection_exists (db w) c"
    and "send_fails w self = None"
  shows "\<exists>w'. handle_subscribe self data rid w = (Ok (), w')
           \<and> sent w' = (sent w)(self := sent w self @
                  [JObj [(''type'', JStr ''subscribed''),
                         (''topic'', JStr tn),
                         (''client_id'', dget data ''client_id'' JNull),
                         (''request_id'', rid),
                         (''status'', JStr ''success''),
                         (''timestamp'', isoformat (Suc (clock w)))]])
           \<and> (\<exists>s. find_subscription (db w') c tn = Some s \<and> s_is_active s)
           \<and> (\<exists>r. find_topic (db w') tn = Some r \<and> t_subscriber_count r = active_count (db w') tn)
           \<and> (\<exists>S. topic_connections w' tn = Some S \<and> self \<in> set S)
           \<and> tn \<in> set (subscribed_topics (consumers w' self))"
proof -
  let ?d1 = "subscriptions_get_or_create c tn (topics_get_or_create tn (db w))"
  have run: "handle_subscribe self data rid w =
     (Ok (),
      w\<lparr>db := update_activity c (clock w) (update_subscriber_count tn (active_count ?d1 tn) ?d1),
        consumers := (consumers w)(self := (consumers w self)
                        \<lparr>client_id := dget data ''client_id'' JNull,
                         subscribed_topics := List.insert tn (subscribed_topics (consumers w self))\<rparr>),
        topic_connections := (topic_connections w)
              (tn \<mapsto> List.insert self (case topic_connections w tn of None \<Rightarrow> [] | Some s \<Rightarrow> s)),
        clock := Suc (Suc (clock w)),
        sent := (sent w)(self := sent w self @ [JObj [(''type'', JStr ''subscribed''),
                                            (''topic'', JStr tn),
                                            (''client_id'', dget data ''client_id'' JNull),
                                            (''request_id'', rid),
                                            (''status'', JStr ''success''),
                                            (''timestamp'', isoformat (Suc (clock w)))]]
               @ (if 0 < n \<and> n \<le> 9223372036854775807
                  then map (history_envelope tn) (take (nat n) (recent_messages (db w) tn)) else []))\<rparr>)"
    using assms(1-4,6-8) by (rule handle_subscribe_run)
  have sub: "\<exists>s. find_subscription ?d1 c tn = Some s \<and> s_is_active s"
    by (rule find_subscription_get_or_create)
  have top: "find_topic ?d1 tn \<noteq> None" by simp
  show ?thesis
    unfolding run using assms(5) sub topic_row_after_recount[OF top]
    by simp
qed


theorem handle_subscribe_no_history_witness:
  "\<exists>w'. handle_subscribe 1 [(''topic'', JStr ''news''), (''client_id'', JStr ''alice''),
                              (''last_n'', JInt (- 1))] (JStr example_request_id) example_world
           = (Ok (), w')
       \<and> sent w' 1 = [JObj [(''type'', JStr ''subscribed''),
                            (''topic'', JStr ''news''),
                            (''client_id'', JStr ''alice''),
                            (''request_id'', JStr example_request_id),
                            (''status'', JStr ''success''),
                            (''timestamp'', JInt 11)]]"
  using handle_subscribe_no_history
          [of "[(''topic'', JStr ''news''), (''client_id'', JStr ''alice''), (''last_n'', JInt (- 1))]"
              "''news''" "- 1" example_world 1 "''conn-1''" "JStr example_request_id"]
  by (auto simp: dget_def connection_exists_def isoformat_def example_defs)



section \<open>The subscriber count after subscribing and unsubscribing\<close>


lemma unsubscribe_from_topic_count:
  assumes "unsubscribe_from_topic self t cid w = (Ok True, w')"
  shows "\<exists>r. find_topic (db w') t = Some r \<and> t_subscriber_count r = active_count (db w') t"
  using assms
  by (auto simp: unsubscribe_from_topic_def Let_def find_topic_update_subscriber_count
           split: option.splits if_splits)





section \<open>Subscribing twice\<close>

lemma length_filter_key_le1:
  "distinct (map f xs) \<Longrightarrow> length (filter (\<lambda>x. f x = k) xs) \<le> 1"
proof (induction xs)
  case Nil
  then show ?case by simp
next
  case (Cons x xs)
  show ?case
  proof (cases "f x = k")
    case True
    with Cons.prems have "k \<notin> f ` set xs" by simp
    then have "\<forall>y \<in> set xs. f y \<noteq> k" by blast
    then have "filter (\<lambda>x. f x = k) xs = []" by (simp add: filter_empty_conv)
    with True show ?thesis by simp
  next
    case False
    with Cons show ?thesis by simp
  qed
qed

lemma filter_pair_set_active:
  "filter (\<lambda>s. s_connection s = c \<and> s_topic s = t)
          (map (\<lambda>s. if s_connection s = c \<and> s_topic s = t then s\<lparr>s_is_active := b\<rparr> else s) ss)
   = map (\<lambda>s. s\<lparr>s_is_active := b\<rparr>) (filter (\<lambda>s. s_connection s = c \<and> s_topic s = t) ss)"
  by (induction ss) auto

lemma pair_rows_get_or_create:
  assumes "unique_together d"
  shows "map s_is_active (pair_rows (subscriptions_get_or_create c t d) c t) = [True]"
proof (cases "find_subscription d c t")
  case None
  then have "filter (\<lambda>s. s_connection s = c \<and> s_topic s = t) (subscriptions d) = []"
    by (auto simp: find_subscription_def find_None_iff filter_empty_conv)
  with None show ?thesis
    by (simp add: pair_rows_def subscriptions_get_or_create_def)
next
  case (Some s)
  let ?P = "\<lambda>s. s_connection s = c \<and> s_topic s = t"
  have le: "length (filter (\<lambda>s. (s_connection s, s_topic s) = (c, t)) (subscriptions d)) \<le> 1"
    using assms unfolding unique_together_def by (rule length_filter_key_le1)
  from Some have "s \<in> set (subscriptions d)" and "?P s"
    by (auto simp: find_subscription_def find_Some_iff)
  then have "filter ?P (subscriptions d) \<noteq> []"
    unfolding filter_empty_conv by blast
  with le have "length (filter ?P (subscriptions d)) = 1"
    by (cases "filter ?P (subscriptions d)") auto
  then obtain x where x: "filter ?P (subscriptions d) = [x]"
    by (cases "filter ?P (subscriptions d)") auto
  have "filter ?P (map (\<lambda>s. if ?P s then s\<lparr>s_is_active := True\<rparr> else s) (subscriptions d))
        = map (\<lambda>s. s\<lparr>s_is_active := True\<rparr>) (filter ?P (subscriptions d))"
    by (rule filter_pair_set_active)
  with x Some show ?thesis
    by (simp add: pair_rows_def subscriptions_get_or_create_def set_active_def)
qed


lemma unique_together_unchanged [simp]:
  "unique_together (update_activity c ts d) = unique_together d"
  "unique_together (update_subscriber_count t k d) = unique_together d"
  "unique_together (topics_get_or_create t d) = unique_together d"
  by (simp_all add: unique_together_def)

lemma pair_rows_unchanged [simp]:
  "pair_rows (update_activity c' ts d) c t = pair_rows d c t"
  "pair_rows (update_subscriber_count t' k d) c t = pair_rows d c t"
  "pair_rows (topics_get_or_create t' d) c t = pair_rows d c t"
  by (simp_all add: pair_rows_def)

lemma unique_together_set_active [simp]:
  "unique_together (set_active c t b d) = unique_together d"
  by (simp only: unique_together_def keys_of_set_active)

lemma unique_together_get_or_create:
  assumes "unique_together d"
  shows "unique_together (subscriptions_get_or_create c t d)"
proof (cases "find_subscription d c t")
  case None
  then have "(c, t) \<notin> set (map (\<lambda>s. (s_connection s, s_topic s)) (subscriptions d))"
    by (auto simp: find_subscription_def find_None_iff)
  with assms None show ?thesis
    by (simp add: subscriptions_get_or_create_def unique_together_def)
next
  case (Some s)
  with assms show ?thesis by (simp add: subscriptions_get_or_create_def)
qed

lemma no_ack_in_history:
  "filter (\<lambda>e. field e ''type'' = Some (JStr ''subscribed'')) (map (history_envelope t) ms) = []"
  by (induction ms) (simp_all add: history_envelope_def)

text \<open>
  Claim C4. A connected consumer whose socket takes frames handles two subscribe requests
  for the same topic in sequence, in a store that respects the uniqueness of
  (connection, topic). Afterwards the store holds exactly one subscription row for the
  pair and that row is active; both handlers return normally, and among the frames sent
  to the consumer during the two requests the \<open>subscribed\<close> acknowledgements are
  exactly two, one per request id, in order (history envelopes, if \<open>last_n\<close> asks for
  them, come in between).
\<close>

theorem subscribe_twice:
  assumes "dget data1 ''topic'' JNull = JStr tn" and "dget data2 ''topic'' JNull = JStr tn"
    and "tn \<noteq> []"
    and "truthy (dget data1 ''client_id'' JNull)" and "truthy (dget data2 ''client_id'' JNull)"
    and "dget data1 ''last_n'' (JInt 0) = JInt n1" and "dget data2 ''last_n'' (JInt 0) = JInt n2"
    and "connection (consumers w self) = Some c" and "connection_exists (db w) c"
    and "send_fails w self = None"
    and "unique_together (db w)"
    and "handle_subscribe self data1 rid1 w = (r1, w1)"
    and "handle_subscribe self data2 rid2 w1 = (r2, w2)"
  shows "r1 = Ok () \<and> r2 = Ok ()
       \<and> map s_is_active (pair_rows (db w2) c tn) = [True]
       \<and> filter (\<lambda>e. field e ''type'' = Some (JStr ''subscribed''))
                (drop (length (sent w self)) (sent w2 self))
           = [JObj [(''type'', JStr ''subscribed''),
                    (''topic'', JStr tn),
                    (''client_id'', dget data1 ''client_id'' JNull),
                    (''request_id'', rid1),
                    (''status'', JStr ''success''),
                    (''timestamp'', isoformat (Suc (clock w)))],
              JObj [(''type'', JStr ''subscribed''),
                    (''topic'', JStr tn),
                    (''client_id'', dget data2 ''client_id'' JNull),
                    (''request_id'', rid2),
                    (''status'', JStr ''success''),
                    (''timestamp'', isoformat (Suc (Suc (Suc (clock w)))))]]"
proof -
  note run1 = handle_subscribe_run[OF assms(1,3,4,6,8,9,10), of rid1]
  from run1 assms(12) have r1: "r1 = Ok ()" and w1:
    "w1 = w\<lparr>db := update_activity c (clock w)
                (update_subscriber_count tn
                   (active_count (subscriptions_get_or_create c tn (topics_get_or_create tn (db w))) tn)
                   (subscriptions_get_or_create c tn (topics_get_or_create tn (db w)))),
        consumers := (consumers w)(self := (consumers w self)
                        \<lparr>client_id := dget data1 ''client_id'' JNull,
                         subscribed_topics := List.insert tn (subscribed_topics (consumers w self))\<rparr>),
        topic_connections := (topic_connections w)
              (tn \<mapsto> List.insert self (case topic_connections w tn of None \<Rightarrow> [] | Some s \<Rightarrow> s)),
        clock := Suc (Suc (clock w)),
        sent := (sent w)(self := sent w self @ [JObj [(''type'', JStr ''subscribed''),
                                            (''topic'', JStr tn),
                                            (''client_id'', dget data1 ''client_id'' JNull),
                                            (''request_id'', rid1),
                                            (''status'', JStr ''success''),
                                            (''timestamp'', isoformat (Suc (clock w)))]]
               @ (if 0 < n1 \<and> n1 \<le> 9223372036854775807
                  then map (history_envelope tn) (take (nat n1) (recent_messages (db w) tn)) else []))\<rparr>"
    by simp_all
  have c1: "connection (consumers w1 self) = Some c" using assms(8) by (simp add: w1)
  have e1: "connection_exists (db w1) c" using assms(9) by (simp add: w1)
  have s1: "send_fails w1 self = None" using assms(10) by (simp add: w1)
  have u1: "unique_together (db w1)"
    using assms(11) by (simp add: w1 unique_together_get_or_create)
  note run2 = handle_subscribe_run[OF assms(2,3,5,7) c1 e1 s1, of rid2]
  from run2 assms(13) have r2: "r2 = Ok ()"
    and d2: "db w2 = update_activity c (clock w1)
                (update_subscriber_count tn
                   (active_count (subscriptions_get_or_create c tn (topics_get_or_create tn (db w1))) tn)
                   (subscriptions_get_or_create c tn (topics_get_or_create tn (db w1))))"
    and sent2: "sent w2 self = sent w1 self @ [JObj [(''type'', JStr ''subscribed''),
                                            (''topic'', JStr tn),
                                            (''client_id'', dget data2 ''client_id'' JNull),
                                            (''request_id'', rid2),
                                            (''status'', JStr ''success''),
                                            (''timestamp'', isoformat (Suc (clock w1)))]]
               @ (if 0 < n2 \<and> n2 \<le> 9223372036854775807
                  then map (history_envelope tn) (take (nat n2) (recent_messages (db w1) tn)) else [])"
    by auto
  have rows: "map s_is_active (pair_rows (db w2) c tn) = [True]"
    unfolding d2 using u1 by (simp add: pair_rows_get_or_create)
  have acks: "filter (\<lambda>e. field e ''type'' = Some (JStr ''subscribed''))
                (drop (length (sent w self)) (sent w2 self))
           = [JObj [(''type'', JStr ''subscribed''),
                    (''topic'', JStr tn),
                    (''client_id'', dget data1 ''client_id'' JNull),
                    (''request_id'', rid1),
                    (''status'', JStr ''success''),
                    (''timestamp'', isoformat (Suc (clock w)))],
              JObj [(''type'', JStr ''subscribed''),
                    (''topic'', JStr tn),
                    (''client_id'', dget data2 ''client_id'' JNull),
                    (''request_id'', rid2),
                    (''status'', JStr ''success''),
                    (''timestamp'', isoformat (Suc (Suc (Suc (clock w)))))]]"
    unfolding sent2 by (simp add: w1 no_ack_in_history)
  from r1 r2 rows acks show ?thesis by simp
qed


theorem subscribe_twice_witness:
  "map s_is_active
       (pair_rows
          (db (snd (handle_subscribe 1
                      [(''topic'', JStr ''news''), (''client_id'', JStr ''alice'')] (JStr ''00000000-0000-4000-8000-000000000002'')
                      (snd (handle_subscribe 1
                              [(''topic'', JStr ''news''), (''client_id'', JStr ''alice''),
                               (''last_n'', JInt 1)]
                              (JStr ''00000000-0000-4000-8000-000000000001'') example_world)))))
          ''conn-1'' ''news'')
     = [True]
   \<and> filter (\<lambda>e. field e ''type'' = Some (JStr ''subscribed''))
        (sent (snd (handle_subscribe 1
                      [(''topic'', JStr ''news''), (''client_id'', JStr ''alice'')] (JStr ''00000000-0000-4000-8000-000000000002'')
                      (snd (handle_subscribe 1
                              [(''topic'', JStr ''news''), (''client_id'', JStr ''alice''),
                               (''last_n'', JInt 1)]
                              (JStr ''00000000-0000-4000-8000-000000000001'') example_world)))) 1)
     = [JObj [(''type'', JStr ''subscribed''), (''topic'', JStr ''news''),
              (''client_id'', JStr ''alice''), (''request_id'', JStr ''00000000-0000-4000-8000-000000000001''),
              (''status'', JStr ''success''), (''timestamp'', JInt 11)],
        JObj [(''type'', JStr ''subscribed''), (''topic'', JStr ''news''),
              (''client_id'', JStr ''alice''), (''request_id'', JStr ''00000000-0000-4000-8000-000000000002''),
              (''status'', JStr ''success''), (''timestamp'', JInt 13)]]"
  using subscribe_twice
          [where ?data1.0 = "[(''topic'', JStr ''news''), (''client_id'', JStr ''alice''),
                             (''last_n'', JInt 1)]"
             and ?data2.0 = "[(''topic'', JStr ''news''), (''client_id'', JStr ''alice'')]"
             and tn = "''news''" and ?n1.0 = 1 and ?n2.0 = 0
             and w = example_world and self = 1 and c = "''conn-1''"
             and ?rid1.0 = "JStr ''00000000-0000-4000-8000-000000000001''" and ?rid2.0 = "JStr ''00000000-0000-4000-8000-000000000002''"
             and ?r1.0 = "fst (handle_subscribe 1
                              [(''topic'', JStr ''news''), (''client_id'', JStr ''alice''),
                               (''last_n'', JInt 1)]
                              (JStr ''00000000-0000-4000-8000-000000000001'') example_world)"
             and ?w1.0 = "snd (handle_subscribe 1
                              [(''topic'', JStr ''news''), (''client_id'', JStr ''alice''),
                               (''last_n'', JInt 1)]
                              (JStr ''00000000-0000-4000-8000-000000000001'') example_world)"
             and ?r2.0 = "fst (handle_subscribe 1
                      [(''topic'', JStr ''news''), (''client_id'', JStr ''alice'')] (JStr ''00000000-0000-4000-8000-000000000002'')
                      (snd (handle_subscribe 1
                              [(''topic'', JStr ''news''), (''client_id'', JStr ''alice''),
                               (''last_n'', JInt 1)]
                              (JStr ''00000000-0000-4000-8000-000000000001'') example_world)))"
             and ?w2.0 = "snd (handle_subscribe 1
                      [(''topic'', JStr ''news''), (''client_id'', JStr ''alice'')] (JStr ''00000000-0000-4000-8000-000000000002'')
                      (snd (handle_subscribe 1
                              [(''topic'', JStr ''news''), (''client_id'', JStr ''alice''),
                               (''last_n'', JInt 1)]
                              (JStr ''00000000-0000-4000-8000-000000000001'') example_world)))"]
  by (simp add: dget_def connection_exists_def unique_together_def isoformat_def example_defs)



section \<open>Unsubscribing\<close>

lemma handle_unsubscribe_not_found:
  assumes "dget data ''topic'' JNull = JStr tn" and "tn \<noteq> []"
    and "truthy (dget data ''client_id'' JNull)"
    and "connection (consumers w self) = Some c"
    and "send_fails w self = None"
    and "find_topic (db w) tn = None \<or> find_subscription (db w) c tn = None"
  shows "handle_unsubscribe self data rid w =
     (Ok (),
      w\<lparr>clock := Suc (clock w),
        sent := (sent w)(self := sent w self @
                  [JObj ([(''type'', JStr ''error''),
                          (''error'', JStr (''Failed to unsubscribe from topic: '' @ tn)),
                          (''timestamp'', isoformat (clock w))]
                         @ (if truthy rid then [(''request_id'', rid)] else []))])\<rparr>)"
  using assms
  by (auto simp: handle_unsubscribe_def monad_defs unsubscribe_from_topic_def send_error_def Let_def
           split: option.split)

lemma handle_unsubscribe_found:
  assumes "dget data ''topic'' JNull = JStr tn" and "tn \<noteq> []"
    and "truthy (dget data ''client_id'' JNull)"
    and "connection (consumers w self) = Some c"
    and "send_fails w self = None"
    and "find_topic (db w) tn \<noteq> None" and "find_subscription (db w) c tn \<noteq> None"
  shows "\<exists>w'. handle_unsubscribe self data rid w = (Ok (), w')
           \<and> sent w' = (sent w)(self := sent w self @
                  [JObj [(''type'', JStr ''unsubscribed''),
                         (''topic'', JStr tn),
                         (''client_id'', dget data ''client_id'' JNull),
                         (''request_id'', rid),
                         (''status'', JStr ''success''),
                         (''timestamp'', isoformat (Suc (clock w)))]])
           \<and> db w' = update_activity c (clock w)
                        (update_subscriber_count tn (active_count (set_active c tn False (db w)) tn)
                           (set_active c tn False (db w)))
           \<and> connection (consumers w' self) = Some c
           \<and> send_fails w' = send_fails w"
  using assms
  by (auto simp: handle_unsubscribe_def monad_defs unsubscribe_from_topic_def registry_remove_def Let_def
           split: option.split)


text \<open>
  Claim C5, as the code has it. \<open>unsubscribe_from_topic\<close> looks the row of the pair up
  without regard to \<open>is_active\<close> and only clears the flag. So, for a connected consumer
  whose socket takes frames: when the topic is unknown or the store has no subscription
  row for the pair, the one frame sent is an error envelope (Failed to unsubscribe from
  topic) and nothing else changes; when the row exists, active or not, the one frame
  sent is the \<open>unsubscribed\<close> success envelope, and afterwards the topic and the row
  are still there, the row inactive, so that a repeated unsubscribe succeeds again.
\<close>

theorem handle_unsubscribe_answer:
  assumes "dget data ''topic'' JNull = JStr tn" and "tn \<noteq> []"
    and "truthy (dget data ''client_id'' JNull)"
    and "connection (consumers w self) = Some c"
    and "send_fails w self = None"
  shows "(find_topic (db w) tn = None \<or> find_subscription (db w) c tn = None \<longrightarrow>
            handle_unsubscribe self data rid w =
              (Ok (),
               w\<lparr>clock := Suc (clock w),
                 sent := (sent w)(self := sent w self @
                    [JObj ([(''type'', JStr ''error''),
                            (''error'', JStr (''Failed to unsubscribe from topic: '' @ tn)),
                            (''timestamp'', isoformat (clock w))]
                           @ (if truthy rid then [(''request_id'', rid)] else []))])\<rparr>))
       \<and> (find_topic (db w) tn \<noteq> None \<and> find_subscription (db w) c tn \<noteq> None \<longrightarrow>
            (\<exists>w'. handle_unsubscribe self data rid w = (Ok (), w')
               \<and> sent w' = (sent w)(self := sent w self @
                    [JObj [(''type'', JStr ''unsubscribed''),
                           (''topic'', JStr tn),
                           (''client_id'', dget data ''client_id'' JNull),
                           (''request_id'', rid),
                           (''status'', JStr ''success''),
                           (''timestamp'', isoformat (Suc (clock w)))]])
               \<and> find_topic (db w') tn \<noteq> None
               \<and> (\<exists>s. find_subscription (db w') c tn = Some s \<and> \<not> s_is_active s)
               \<and> connection (consumers w' self) = Some c
               \<and> send_fails w' = send_fails w))"
proof (intro conjI impI)
  assume "find_topic (db w) tn = None \<or> find_subscription (db w) c tn = None"
  with assms show "handle_unsubscribe self data rid w =
              (Ok (),
               w\<lparr>clock := Suc (clock w),
                 sent := (sent w)(self := sent w self @
                    [JObj ([(''type'', JStr ''error''),
                            (''error'', JStr (''Failed to unsubscribe from topic: '' @ tn)),
                            (''timestamp'', isoformat (clock w))]
                           @ (if truthy rid then [(''request_id'', rid)] else []))])\<rparr>)"
    by (rule handle_unsubscribe_not_found)
next
  assume found: "find_topic (db w) tn \<noteq> None \<and> find_subscription (db w) c tn \<noteq> None"
  then obtain s where s: "find_subscription (db w) c tn = Some s" by auto
  from found assms obtain w' where
    run: "handle_unsubscribe self data rid w = (Ok (), w')"
    and sent: "sent w' = (sent w)(self := sent w self @
                    [JObj [(''type'', JStr ''unsubscribed''),
                           (''topic'', JStr tn),
                           (''client_id'', dget data ''client_id'' JNull),
                           (''request_id'', rid),
                           (''status'', JStr ''success''),
                           (''timestamp'', isoformat (Suc (clock w)))]])"
    and dbw: "db w' = update_activity c (clock w)
                        (update_subscriber_count tn (active_count (set_active c tn False (db w)) tn)
                           (set_active c tn False (db w)))"
    and rest: "connection (consumers w' self) = Some c" "send_fails w' = send_fails w"
    using handle_unsubscribe_found[of data tn w self c rid] by blast
  have topic: "find_topic (db w') tn \<noteq> None"
    using found by (simp add: dbw find_topic_update_subscriber_count)
  have row: "\<exists>s. find_subscription (db w') c tn = Some s \<and> \<not> s_is_active s"
    using s by (simp add: dbw find_subscription_set_active)
  from run sent topic row rest
  show "\<exists>w'. handle_unsubscribe self data rid w = (Ok (), w')
               \<and> sent w' = (sent w)(self := sent w self @
                    [JObj [(''type'', JStr ''unsubscribed''),
                           (''topic'', JStr tn),
                           (''client_id'', dget data ''client_id'' JNull),
                           (''request_id'', rid),
                           (''status'', JStr ''success''),
                           (''timestamp'', isoformat (Suc (clock w)))]])
               \<and> find_topic (db w') tn \<noteq> None
               \<and> (\<exists>s. find_subscription (db w') c tn = Some s \<and> \<not> s_is_active s)
               \<and> connection (consumers w' self) = Some c
               \<and> send_fails w' = send_fails w"
    by blast
qed

theorem handle_unsubscribe_answer_witness:
  "sent (snd (handle_unsubscribe 1 [(''topic'', JStr ''news''), (''client_id'', JStr ''alice'')]
                (JStr example_request_id) example_world)) 1
     = [JObj [(''type'', JStr ''error''),
              (''error'', JStr ''Failed to unsubscribe from topic: news''),
              (''timestamp'', JInt 10),
              (''request_id'', JStr example_request_id)]]
   \<and> (\<exists>w'. handle_unsubscribe 2 [(''topic'', JStr ''news''), (''client_id'', JStr ''bob'')]
                (JStr example_request_id) example_world = (Ok (), w')
          \<and> sent w' 2
             = [JObj [(''type'', JStr ''unsubscribed''),
                      (''topic'', JStr ''news''),
                      (''client_id'', JStr ''bob''),
                      (''request_id'', JStr example_request_id),
                      (''status'', JStr ''success''),
                      (''timestamp'', JInt 11)]]
          \<and> (\<exists>s. find_subscription (db w') ''conn-2'' ''news'' = Some s \<and> \<not> s_is_active s))"
  using handle_unsubscribe_answer
          [of "[(''topic'', JStr ''news''), (''client_id'', JStr ''alice'')]" "''news''"
              example_world 1 "''conn-1''" "JStr example_request_id"]
        handle_unsubscribe_answer
          [of "[(''topic'', JStr ''news''), (''client_id'', JStr ''bob'')]" "''news''"
              example_world 2 "''conn-2''" "JStr example_request_id"]
  by (auto simp: dget_def find_topic_def find_subscription_def isoformat_def example_defs)

text \<open>
  The claim as stated asks for an error on the second of two unsubscribe requests. In the
  example world consumer 2 is subscribed to news; two unsubscribe requests in sequence are
  both answered with \<open>unsubscribed\<close>.
\<close>

theorem second_unsubscribe_succeeds:
  "sent (snd (handle_unsubscribe 2 [(''topic'', JStr ''news''), (''client_id'', JStr ''bob'')]
                (JStr ''00000000-0000-4000-8000-000000000002'')
                (snd (handle_unsubscribe 2 [(''topic'', JStr ''news''), (''client_id'', JStr ''bob'')]
                        (JStr ''00000000-0000-4000-8000-000000000001'') example_world)))) 2
     = [JObj [(''type'', JStr ''unsubscribed''),
              (''topic'', JStr ''news''),
              (''client_id'', JStr ''bob''),
              (''request_id'', JStr ''00000000-0000-4000-8000-000000000001''),
              (''status'', JStr ''success''),
              (''timestamp'', JInt 11)],
        JObj [(''type'', JStr ''unsubscribed''),
              (''topic'', JStr ''news''),
              (''client_id'', JStr ''bob''),
              (''request_id'', JStr ''00000000-0000-4000-8000-000000000002''),
              (''status'', JStr ''success''),
              (''timestamp'', JInt 13)]]"
  by (simp add: exec_defs example_defs)



section \<open>History on subscribe\<close>

text \<open>
  \<open>get_last_n_messages\<close> builds the history envelopes with the keys type, topic and
  message. The generator \<open>send_last_n_messages\<close> beside it adds \<open>request_id\<close>, but
  it is never called, and \<open>send_last_n_messages_async\<close> does not use the
  \<open>request_id\<close> it is given.
\<close>

lemma history_envelope_no_request_id:
  "field (history_envelope topic m) ''request_id'' = None"
  by (simp add: history_envelope_def)

text \<open>
  Claim C2 asks that every history envelope sent after the \<open>subscribed\<close>
  acknowledgement carries the request id of the subscribe request. In the example world
  consumer 1 subscribes to news with \<open>last_n = 1\<close>: the acknowledgement comes first and
  carries the request id, the one history envelope follows, newest message first, and has
  no \<open>request_id\<close> key.
\<close>

theorem history_envelope_lacks_request_id:
  "sent (snd (handle_subscribe 1
                [(''topic'', JStr ''news''), (''client_id'', JStr ''alice''), (''last_n'', JInt 1)]
                (JStr example_request_id) example_world)) 1
     = [JObj [(''type'', JStr ''subscribed''),
              (''topic'', JStr ''news''),
              (''client_id'', JStr ''alice''),
              (''request_id'', JStr example_request_id),
              (''status'', JStr ''success''),
              (''timestamp'', JInt 11)],
        JObj [(''type'', JStr ''message''),
              (''topic'', JStr ''news''),
              (''message'', JObj [(''id'', JStr ''msg-1''),
                                  (''payload'', JObj [(''payload'', JStr ''hello'')]),
                                  (''timestamp'', JInt 5)])]]"
  by (simp add: exec_defs example_defs)

section \<open>The messages endpoint\<close>

lemma get_topic_messages_example:
  "get_topic_messages example_db (Number 101) NotGiven ''news''
     = \<lparr>status = 500,
        body = JObj [(''error'',
                      JStr (''Failed to get topic messages: name '' @ [CHR 0x27]
                            @ ''MessageSerializer'' @ [CHR 0x27] @ '' is not defined''))]\<rparr>"
  by (simp add: get_topic_messages_def find_topic_def slice_def global_name_def views_names_def
        example_defs)

lemma global_name_MessageSerializer:
  "global_name ''MessageSerializer''
     = Inl (NameError (''name '' @ [CHR 0x27] @ ''MessageSerializer'' @ [CHR 0x27]
                       @ '' is not defined''))"
  by (simp add: global_name_def views_names_def)

text \<open>
  Claim C7 asks for a response of shape \<open>{topic, messages, total_count, limit, offset}\<close>
  for every existing topic. views.py imports six serializers and \<open>MessageSerializer\<close> is
  not one of them, so for an existing topic every path of \<open>get_topic_messages\<close> ends
  in the handler of \<open>except Exception\<close>: the status is 500 whatever the store and the
  query are (and 404 when the topic does not exist); the 200 response is never built.
\<close>

theorem get_topic_messages_never_succeeds:
  "status (get_topic_messages d limit_param offset_param topic_name)
     = (if find_topic d topic_name = None then 404 else 500)"
  by (simp add: get_topic_messages_def global_name_MessageSerializer Let_def
           split: option.split sum.split)

section \<open>Frames with a bad request id\<close>

text \<open>
  Claim C8 asks for the error Invalid or missing request_id whenever the request id does
  not parse as a UUID. A request id that is a JSON number is truthy and reaches
  \<open>uuid.UUID\<close>, which raises AttributeError, not the ValueError that
  \<open>is_valid_uuid\<close> catches; the exception arrives at the last handler of
  \<open>receive\<close>. For the frame \<open>{"type": "ping", "request_id": 123}\<close> the consumer sends
  an error envelope without request id whose text is Internal error: 'int' object has no
  attribute 'replace'.
\<close>

theorem non_string_request_id_internal_error:
  "receive 1 (Decoded (JObj [(''type'', JStr ''ping''), (''request_id'', JInt 123)])) example_world
     = (Ok (),
        example_world
          \<lparr>clock := 11,
           sent := (sent example_world)
                     (1 := [JObj [(''type'', JStr ''error''),
                                  (''error'',
                                   JStr (''Internal error: '' @ [CHR 0x27] @ ''int'' @ [CHR 0x27]
                                         @ '' object has no attribute '' @ [CHR 0x27]
                                         @ ''replace'' @ [CHR 0x27])),
                                  (''timestamp'', JInt 10)]])\<rparr>)"
  by (simp add: exec_defs example_defs)

text \<open>
  That apart, the claim holds: a request id that is missing or falsy, or a string that
  \<open>uuid.UUID\<close> refuses, is answered with Invalid or missing request_id in an envelope
  without request id, nothing else changes (no handler runs), and a valid ping is
  answered afterwards as at any time.
\<close>

lemma receive_rejects_request_id:
  assumes "\<not> truthy (dget data ''request_id'' JNull)
           \<or> (\<exists>s. dget data ''request_id'' JNull = JStr s \<and> \<not> uuid_parses w s)"
    and "send_fails w self = None"
  shows "receive self (Decoded (JObj data)) w
     = (Ok (),
        w\<lparr>clock := Suc (clock w),
          sent := (sent w)(self := sent w self @
                    [JObj [(''type'', JStr ''error''),
                           (''error'', JStr ''Invalid or missing request_id''),
                           (''timestamp'', isoformat (clock w))]])\<rparr>)"
  using assms
  by (auto simp: receive_def monad_defs is_valid_uuid_def send_error_def Let_def)

lemma receive_ping:
  assumes "dget data ''type'' JNull = JStr ''ping''"
    and "dget data ''request_id'' JNull = JStr rid" and "uuid_parses w rid" and "rid \<noteq> []"
    and "send_fails w self = None"
  shows "\<exists>w' ts. receive self (Decoded (JObj data)) w = (Ok (), w')
           \<and> sent w' = (sent w)(self := sent w self @
                  [JObj [(''type'', JStr ''pong''),
                         (''request_id'', JStr rid),
                         (''timestamp'', isoformat ts)]])"
  using assms
  by (auto simp: receive_def monad_defs is_valid_uuid_def handle_ping_def
        update_connection_activity_def Let_def split: option.split)

section \<open>Deleting a topic\<close>

text \<open>
  Claim C6 asks that after the deletion every handle of the topic's registry set has been
  sent the notice and the registry entry is gone. \<open>notify_topic_deleted\<close> discards a
  connection whose send raised from the very set it iterates over, so the next step of
  the loop raises RuntimeError, the remaining connections are skipped and
  \<open>del cls._topic_connections[topic_name]\<close> is not reached. With the failing consumer
  3 as the only subscriber of news, the deletion answers 200, the topic row is gone, and
  the registry entry is still there.
\<close>

theorem delete_topic_keeps_registry_entry:
  "fst (delete_topic ''news'' (example_world\<lparr>topic_connections := [''news'' \<mapsto> [3]]\<rparr>))
     = Ok \<lparr>status = 200, body = JObj [(''status'', JStr ''deleted''), (''topic'', JStr ''news'')]\<rparr>
   \<and> find_topic (db (snd (delete_topic ''news''
                             (example_world\<lparr>topic_connections := [''news'' \<mapsto> [3]]\<rparr>)))) ''news''
     = None
   \<and> topic_connections (snd (delete_topic ''news''
                               (example_world\<lparr>topic_connections := [''news'' \<mapsto> [3]]\<rparr>))) ''news''
     = Some [3]"
  by (simp add: exec_defs example_defs)

text \<open>
  With consumer 3 iterated before the healthy consumer 2, consumer 2 is never notified.
\<close>

lemma delete_topic_skips_later_subscribers:
  "topic_connections (snd (delete_topic ''news''
                             (example_world\<lparr>topic_connections := [''news'' \<mapsto> [3, 2]]\<rparr>))) ''news''
     = Some [3, 2]
   \<and> sent (snd (delete_topic ''news''
                  (example_world\<lparr>topic_connections := [''news'' \<mapsto> [3, 2]]\<rparr>))) 2 = []"
  by (simp add: exec_defs example_defs)

text \<open>
  The rest of the claim holds. The deletion removes the topic row and the topic's
  subscription and message rows, whatever the sockets do; a later publish to the topic,
  with a message and a client id, is answered with Topic not found and creates nothing;
  and when every socket of the topic's registry set takes the notice, each handle of the
  set receives it once and the registry entry is evicted.
\<close>

lemma delete_topic_rows_gone:
  "find_topic (delete_topic_rows n d) n = None
   \<and> filter (\<lambda>s. s_topic s = n) (subscriptions (delete_topic_rows n d)) = []
   \<and> filter (\<lambda>m. m_topic m = n) (messages (delete_topic_rows n d)) = []"
  by (auto simp: delete_topic_rows_def find_topic_def find_None_iff filter_empty_conv)

lemma notify_loop_db: "db (snd (notify_loop env cs w)) = db w"
proof (induction cs arbitrary: w)
  case Nil
  show ?case by (simp add: ok_def)
next
  case (Cons c cs)
  show ?case
  proof (cases "send_fails w c")
    case None
    then have "notify_loop env (c # cs) w
               = notify_loop env cs (w\<lparr>sent := (sent w)(c := sent w c @ [env])\<rparr>)"
      by (simp add: then_do_def try_except_def send_def ok_def)
    then show ?thesis using Cons.IH by simp
  next
    case (Some m)
    then show ?thesis
      by (simp add: then_do_def try_except_def send_def ok_def raise_def)
  qed
qed

lemma notify_topic_deleted_db: "db (snd (notify_topic_deleted n w)) = db w"
proof (cases "topic_connections w n")
  case None
  then show ?thesis by (simp add: notify_topic_deleted_def try_except_def)
next
  case (Some cs)
  let ?env = "JObj [(''type'', JStr ''info''), (''topic'', JStr n), (''msg'', JStr ''topic_deleted''),
                    (''ts'', isoformat (clock w))]"
  let ?w0 = "w\<lparr>clock := Suc (clock w)\<rparr>"
  have "db (snd (notify_loop ?env cs ?w0)) = db w" by (simp add: notify_loop_db)
  then show ?thesis
    using Some
    by (cases "notify_loop ?env cs ?w0")
       (auto simp: notify_topic_deleted_def try_except_def then_do_def now_def ok_def
          registry_del_def split: outcome.split option.split)
qed

lemma delete_topic_db:
  assumes "find_topic (db w) n \<noteq> None"
  shows "db (snd (delete_topic n w)) = delete_topic_rows n (db w)"
proof -
  let ?w1 = "w\<lparr>db := delete_topic_rows n (db w)\<rparr>"
  have "db (snd (notify_topic_deleted n ?w1)) = delete_topic_rows n (db w)"
    by (simp add: notify_topic_deleted_db)
  then show ?thesis
    using assms
    by (cases "notify_topic_deleted n ?w1")
       (auto simp: delete_topic_def then_do_def try_except_def modify_db_def ok_def
          split: outcome.split)
qed

lemma handle_publish_unknown_topic:
  assumes "dget data ''topic'' JNull = JStr tn" and "tn \<noteq> []"
    and "truthy (dget data ''message'' (JObj []))"
    and "truthy (dget data ''client_id'' JNull)"
    and "find_topic (db w) tn = None"
    and "send_fails w self = None"
  shows "handle_publish self data rid w =
     (Ok (),
      w\<lparr>clock := Suc (clock w),
        sent := (sent w)(self := sent w self @
                  [JObj ([(''type'', JStr ''error''),
                          (''error'', JStr (''Topic not found: '' @ tn)),
                          (''timestamp'', isoformat (clock w))]
                         @ (if truthy rid then [(''request_id'', rid)] else []))])\<rparr>)"
  using assms
  by (simp add: handle_publish_def monad_defs get_topic_def send_error_def Let_def)

lemma notify_loop_all_delivered:
  assumes "\<forall>c \<in> set cs. send_fails w c = None" and "distinct cs"
  shows "notify_loop env cs w =
     (Ok (), w\<lparr>sent := (\<lambda>h. if h \<in> set cs then sent w h @ [env] else sent w h)\<rparr>)"
  using assms
proof (induction cs arbitrary: w)
  case Nil
  show ?case by (simp add: ok_def)
next
  case (Cons c cs)
  let ?w1 = "w\<lparr>sent := (sent w)(c := sent w c @ [env])\<rparr>"
  from Cons.prems have ok: "send_fails w c = None" and rest: "\<forall>c \<in> set cs. send_fails ?w1 c = None"
    and dist: "distinct cs" and notin: "c \<notin> set cs" by simp_all
  have step: "notify_loop env (c # cs) w = notify_loop env cs ?w1"
    using ok by (simp add: then_do_def try_except_def send_def ok_def)
  show ?case
    unfolding step Cons.IH[OF rest dist]
    using notin by (auto simp: fun_eq_iff)
qed

lemma notify_topic_deleted_all_delivered:
  assumes "topic_connections w n = Some cs" and "\<forall>c \<in> set cs. send_fails w c = None"
    and "distinct cs"
  shows "notify_topic_deleted n w =
     (Ok (),
      w\<lparr>clock := Suc (clock w),
        sent := (\<lambda>h. if h \<in> set cs
                      then sent w h @ [JObj [(''type'', JStr ''info''), (''topic'', JStr n),
                                             (''msg'', JStr ''topic_deleted''),
                                             (''ts'', isoformat (clock w))]]
                      else sent w h),
        topic_connections := (topic_connections w)(n := None)\<rparr>)"
proof -
  let ?w0 = "w\<lparr>clock := Suc (clock w)\<rparr>"
  have healthy: "\<forall>c \<in> set cs. send_fails ?w0 c = None" using assms(2) by simp
  show ?thesis
    using assms(1)
    by (simp add: notify_topic_deleted_def try_except_def then_do_def now_def registry_del_def
          notify_loop_all_delivered[OF healthy assms(3)] cong: if_cong)
qed


section \<open>Fan-out\<close>

lemma broadcast_loop_run:
  assumes "topic_connections w t = Some R" and "distinct cs"
  shows "broadcast_loop self t env cs w =
     (Ok (),
      w\<lparr>topic_connections :=
          (topic_connections w)
            (t \<mapsto> filter (\<lambda>h. \<not> (h \<in> set cs \<and> h \<noteq> self \<and> send_fails w h \<noteq> None)) R),
        sent := (\<lambda>h. if h \<in> set cs \<and> h \<noteq> self \<and> send_fails w h = None
                      then sent w h @ [env] else sent w h)\<rparr>)"
  using assms
proof (induction cs arbitrary: w R)
  case Nil
  then have "(topic_connections w)(t \<mapsto> R) = topic_connections w" by (simp add: fun_upd_idem)
  then show ?case by (simp add: ok_def)
next
  case (Cons c cs)
  from Cons.prems have dist: "distinct cs" and notin: "c \<notin> set cs" by simp_all
  show ?case
  proof (cases "c = self")
    case True
    have "broadcast_loop self t env (c # cs) w = broadcast_loop self t env cs w"
      using True by (simp add: then_do_def ok_def)
    also note Cons.IH[OF Cons.prems(1) dist]
    finally show ?thesis using True notin
      by (auto simp: fun_eq_iff intro!: arg_cong2[where f="\<lambda>a b. w\<lparr>topic_connections := a, sent := b\<rparr>"]
            arg_cong[where f="\<lambda>x. (topic_connections w)(t \<mapsto> x)"] filter_cong)
  next
    case False
    show ?thesis
    proof (cases "send_fails w c")
      case None
      let ?w1 = "w\<lparr>sent := (sent w)(c := sent w c @ [env])\<rparr>"
      have step: "broadcast_loop self t env (c # cs) w = broadcast_loop self t env cs ?w1"
        using False None by (simp add: then_do_def try_except_def send_def)
      have reg1: "topic_connections ?w1 t = Some R" using Cons.prems(1) by simp
      show ?thesis
        unfolding step Cons.IH[OF reg1 dist]
        using False None notin
        by (auto simp: fun_eq_iff intro!: arg_cong2[where f="\<lambda>a b. w\<lparr>topic_connections := a, sent := b\<rparr>"]
            arg_cong[where f="\<lambda>x. (topic_connections w)(t \<mapsto> x)"] filter_cong)
    next
      case (Some m)
      let ?w1 = "w\<lparr>topic_connections := (topic_connections w)(t \<mapsto> removeAll c R)\<rparr>"
      have step: "broadcast_loop self t env (c # cs) w = broadcast_loop self t env cs ?w1"
        using False Some Cons.prems(1)
        by (simp add: then_do_def try_except_def send_def registry_discard_def)
      have reg1: "topic_connections ?w1 t = Some (removeAll c R)" by simp
      have flt: "filter (\<lambda>h. \<not> (h \<in> set cs \<and> h \<noteq> self \<and> send_fails w h \<noteq> None)) (removeAll c R)
               = filter (\<lambda>h. \<not> (h \<in> set (c # cs) \<and> h \<noteq> self \<and> send_fails w h \<noteq> None)) R"
        using False Some by (induction R) auto
      show ?thesis
        unfolding step Cons.IH[OF reg1 dist]
        using False Some notin flt
        by (auto simp: fun_eq_iff intro!: arg_cong2[where f="\<lambda>a b. w\<lparr>topic_connections := a, sent := b\<rparr>"])
    qed
  qed
qed


text \<open>
  For a message that is a JSON object, \<open>broadcast_message\<close> takes a snapshot S of the
  registry's set for the topic (empty when the topic has no entry) and returns normally.
  The broadcast envelope is appended to the frames of exactly the handles in S other than
  the publisher whose socket takes it; nobody else receives anything, the publisher
  included, subscribed or not. A handle of S whose send raises does not stop the loop:
  every other member is still served, and afterwards the registry's set for the topic is
  S without the handles, other than the publisher, whose send raised. Other registry
  entries and the store are unchanged.
\<close>

lemma broadcast_message_fan_out:
  assumes "S = (case topic_connections w t of None \<Rightarrow> [] | Some s \<Rightarrow> s)" and "distinct S"
  shows "\<exists>w'. broadcast_message self t (JObj kvs) mid cid w = (Ok (), w')
           \<and> sent w' =
               (\<lambda>h. if h \<in> set S \<and> h \<noteq> self \<and> send_fails w h = None
                     then sent w h @
                          [JObj [(''type'', JStr ''message''),
                                 (''topic'', JStr t),
                                 (''message'', JObj [(''id'', JStr mid),
                                                     (''payload'', dget kvs ''payload'' (JObj [])),
                                                     (''timestamp'', isoformat (clock w))]),
                                 (''publisher_client_id'', cid)]]
                     else sent w h)
           \<and> topic_connections w' t
               = map_option (filter (\<lambda>h. h = self \<or> send_fails w h = None)) (topic_connections w t)
           \<and> (\<forall>t'. t' \<noteq> t \<longrightarrow> topic_connections w' t' = topic_connections w t')
           \<and> db w' = db w"
proof (cases "topic_connections w t")
  case None
  with assms show ?thesis
    by (simp add: broadcast_message_def monad_defs)
next
  case (Some R)
  let ?w0 = "w\<lparr>clock := Suc (clock w)\<rparr>"
  have reg: "topic_connections ?w0 t = Some R" using Some by simp
  have dist: "distinct R" using assms Some by simp
  have flt: "filter (\<lambda>h. \<not> (h \<in> set R \<and> h \<noteq> self \<and> send_fails w h \<noteq> None)) R
             = filter (\<lambda>h. h = self \<or> send_fails w h = None) R"
    by (rule filter_cong) auto
  show ?thesis
    using assms(1) Some flt
    by (simp add: broadcast_message_def then_do_def try_except_def now_def
          broadcast_loop_run[OF reg dist] cong: if_cong)
qed

lemma broadcast_message_fan_out_example:
  "\<exists>w'. broadcast_message 1 ''news'' (JObj [(''payload'', JStr ''hi'')]) ''msg-2'' (JStr ''alice'')
            (example_world\<lparr>topic_connections := [''news'' \<mapsto> [1, 2, 3]]\<rparr>) = (Ok (), w')
       \<and> sent w' 1 = []
       \<and> sent w' 2 = [JObj [(''type'', JStr ''message''),
                            (''topic'', JStr ''news''),
                            (''message'', JObj [(''id'', JStr ''msg-2''),
                                                (''payload'', JStr ''hi''),
                                                (''timestamp'', JInt 10)]),
                            (''publisher_client_id'', JStr ''alice'')]]
       \<and> sent w' 3 = []
       \<and> topic_connections w' ''news'' = Some [1, 2]"
  using broadcast_message_fan_out
          [of "[1, 2, 3]" "example_world\<lparr>topic_connections := [''news'' \<mapsto> [1, 2, 3]]\<rparr>" "''news''"
              1 "[(''payload'', JStr ''hi'')]" "''msg-2''" "JStr ''alice''"]
  by (auto simp: dget_def isoformat_def example_defs)

text \<open>
  Claim C1 asks for this fan-out on every publish. \<open>handle_publish\<close> checks
  \<open>message\<close> for truth only, so a message that is a non-empty string is stored and
  acknowledged as published; \<open>broadcast_message\<close> then raises at
  \<open>message_data.get\<close>, inside its own \<open>try\<close>, before any send, and the exception
  is only printed. In the example world consumer 1 publishes the message "hello" to news,
  whose registry set holds the consumers 2 and 3: the message row is written, consumer 1
  receives \<open>published\<close>, and nothing is sent to consumer 2, whose socket takes frames;
  the registry is as before.
\<close>

theorem non_object_publish_reaches_nobody:
  "handle_publish 1
     [(''topic'', JStr ''news''), (''client_id'', JStr ''alice''), (''message'', JStr ''hello'')]
     (JStr example_request_id) example_world
   = (Ok (),
      example_world
        \<lparr>db := update_activity ''conn-1'' 12
                 (update_last_published ''news'' 11
                    (increment_message_count ''news''
                       (example_db
                          \<lparr>messages :=
                             \<lparr>m_id = ''msg-new-'', m_topic = ''news'',
                              m_publisher_connection = Some ''conn-1'',
                              m_data = JStr ''hello'', m_published_at = 10,
                              m_metadata = JObj [(''client_id'', JStr ''alice'')]\<rparr>
                             # messages example_db\<rparr>))),
          sent := (sent example_world)
                    (1 := [JObj [(''type'', JStr ''published''),
                                 (''topic'', JStr ''news''),
                                 (''message_id'', JStr ''msg-new-''),
                                 (''client_id'', JStr ''alice''),
                                 (''request_id'', JStr example_request_id),
                                 (''status'', JStr ''success''),
                                 (''timestamp'', JInt 13)]]),
          clock := 14,
          uuid_next := 1\<rparr>)"
  by (simp add: exec_defs example_defs)

text \<open>The same publish with the object \<open>{"payload": "hello"}\<close> reaches consumer 2.\<close>

lemma object_publish_reaches_subscriber:
  "sent (snd (handle_publish 1
                [(''topic'', JStr ''news''), (''client_id'', JStr ''alice''),
                 (''message'', JObj [(''payload'', JStr ''hello'')])]
                (JStr example_request_id) example_world)) 2
   = [JObj [(''type'', JStr ''message''),
            (''topic'', JStr ''news''),
            (''message'', JObj [(''id'', JStr ''msg-new-''),
                                (''payload'', JStr ''hello''),
                                (''timestamp'', JInt 14)]),
            (''publisher_client_id'', JStr ''alice'')]]"
  by (simp add: exec_defs example_defs)


section \<open>The subscriber counts of the control plane\<close>

lemma keeps_rowsI:
  "(\<And>w. \<exists>new. subscription_keys (db (snd (m w))) = new @ subscription_keys (db w)) \<Longrightarrow> keeps_rows m"
  by (simp add: keeps_rows_def)

lemma keeps_rows_same_db:
  "(\<And>w. db (snd (m w)) = db w) \<Longrightarrow> keeps_rows m"
  by (simp add: keeps_rows_def)

lemma keeps_rows_then_do:
  assumes "keeps_rows m" and "\<And>x. keeps_rows (f x)"
  shows "keeps_rows (then_do m f)"
proof (rule keeps_rowsI)
  fix w
  from assms(1) obtain n1 where n1: "subscription_keys (db (snd (m w))) = n1 @ subscription_keys (db w)"
    unfolding keeps_rows_def by blast
  show "\<exists>new. subscription_keys (db (snd (then_do m f w))) = new @ subscription_keys (db w)"
  proof (cases "m w")
    case (Pair r w1)
    show ?thesis
    proof (cases r)
      case (Ok x)
      from assms(2)[of x] obtain n2 where
        "subscription_keys (db (snd (f x w1))) = n2 @ subscription_keys (db w1)"
        unfolding keeps_rows_def by blast
      with n1 Pair Ok show ?thesis by (simp add: then_do_def)
    next
      case (Raise e)
      with n1 Pair show ?thesis by (simp add: then_do_def)
    next
      case Unmodelled
      with n1 Pair show ?thesis by (simp add: then_do_def)
    qed
  qed
qed

lemma keeps_rows_try_except:
  assumes "keeps_rows m" and "\<And>e. keeps_rows (h e)"
  shows "keeps_rows (try_except m h)"
proof (rule keeps_rowsI)
  fix w
  from assms(1) obtain n1 where n1: "subscription_keys (db (snd (m w))) = n1 @ subscription_keys (db w)"
    unfolding keeps_rows_def by blast
  show "\<exists>new. subscription_keys (db (snd (try_except m h w))) = new @ subscription_keys (db w)"
  proof (cases "m w")
    case (Pair r w1)
    show ?thesis
    proof (cases r)
      case (Ok x)
      with n1 Pair show ?thesis by (simp add: try_except_def)
    next
      case (Raise e)
      from assms(2)[of e] obtain n2 where
        "subscription_keys (db (snd (h e w1))) = n2 @ subscription_keys (db w1)"
        unfolding keeps_rows_def by blast
      with n1 Pair Raise show ?thesis by (simp add: try_except_def)
    next
      case Unmodelled
      with n1 Pair show ?thesis by (simp add: try_except_def)
    qed
  qed
qed

lemma keeps_rows_basic:
  "keeps_rows (ok x)"
  "keeps_rows (raise e)"
  "keeps_rows unmodelled"
  "keeps_rows now"
  "keeps_rows (send h env)"
  "keeps_rows (modify_consumer h g)"
  "keeps_rows (registry_add t h)"
  "keeps_rows (registry_remove t h)"
  "keeps_rows (registry_discard t h)"
  "keeps_rows (registry_del t)"
  "keeps_rows (get_topic t)"
  "keeps_rows (get_last_n_messages t n)"
  "keeps_rows (is_valid_uuid v)"
  by (rule keeps_rows_same_db;
      simp add: monad_defs registry_add_def registry_remove_def registry_discard_def
        registry_del_def get_topic_def get_last_n_messages_def is_valid_uuid_def
        split: option.split json.split)+

lemma keeps_rows_greater_than_zero: "keeps_rows (greater_than_zero v)"
  by (cases v) (simp_all add: keeps_rows_basic)

lemma subscription_keys_unchanged [simp]:
  "subscription_keys (update_activity c ts d) = subscription_keys d"
  "subscription_keys (update_subscriber_count t k d) = subscription_keys d"
  "subscription_keys (topics_get_or_create t d) = subscription_keys d"
  "subscription_keys (increment_message_count t d) = subscription_keys d"
  "subscription_keys (update_last_published t ts d) = subscription_keys d"
  "subscription_keys (set_active c t b d) = subscription_keys d"
  "subscription_keys (d\<lparr>messages := ms\<rparr>) = subscription_keys d"
  by (simp_all add: subscription_keys_def keys_of_set_active increment_message_count_def
        update_last_published_def)

lemma subscription_keys_get_or_create:
  "\<exists>new. subscription_keys (subscriptions_get_or_create c t d) = new @ subscription_keys d"
  by (cases "find_subscription d c t")
     (simp_all add: subscriptions_get_or_create_def, simp add: subscription_keys_def)

lemma keeps_rows_store:
  "keeps_rows (get_or_create_topic t)"
  "keeps_rows (subscribe_to_topic self t cid)"
  "keeps_rows (unsubscribe_from_topic self t cid)"
  "keeps_rows (publish_message self t msg cid)"
  "keeps_rows (update_connection_activity self)"
      apply (rule keeps_rowsI, simp add: get_or_create_topic_def)
     apply (rule keeps_rowsI, simp add: subscribe_to_topic_def Let_def subscription_keys_get_or_create split: option.split)
    apply (rule keeps_rowsI, simp add: unsubscribe_from_topic_def Let_def split: option.split)
   apply (rule keeps_rowsI, simp add: publish_message_def Let_def split: option.split)
  apply (rule keeps_rowsI, simp add: update_connection_activity_def split: option.split)
  done


lemmas keeps_rows_intros = keeps_rows_then_do keeps_rows_try_except keeps_rows_basic
  keeps_rows_greater_than_zero keeps_rows_store

lemma keeps_rows_send_error: "keeps_rows (send_error self msg rid)"
  unfolding send_error_def by (intro keeps_rows_intros)

lemma keeps_rows_send_all: "keeps_rows (send_all self ms)"
  by (induction ms) (auto intro!: keeps_rows_intros)

lemma keeps_rows_broadcast_loop: "keeps_rows (broadcast_loop self t env cs)"
  by (induction cs) (auto intro!: keeps_rows_intros)

lemma keeps_rows_detach_all: "keeps_rows (detach_all self ts)"
  by (induction ts) (auto intro!: keeps_rows_intros)

lemma keeps_rows_send_last_n: "keeps_rows (send_last_n_messages_async self t n rid)"
  unfolding send_last_n_messages_async_def
  by (intro keeps_rows_intros keeps_rows_send_all)

lemma keeps_rows_registry_case:
  "keeps_rows (\<lambda>w. case topic_connections w t of
                      Some cs \<Rightarrow> broadcast_loop self t env cs w
                    | None \<Rightarrow> (Ok (), w))"
proof (rule keeps_rowsI)
  fix w
  show "\<exists>new. subscription_keys
                 (db (snd (case topic_connections w t of
                             Some cs \<Rightarrow> broadcast_loop self t env cs w
                           | None \<Rightarrow> (Ok (), w))))
              = new @ subscription_keys (db w)"
    using keeps_rows_broadcast_loop[of self t env]
    by (cases "topic_connections w t") (auto simp: keeps_rows_def)
qed

lemma keeps_rows_broadcast_message: "keeps_rows (broadcast_message self t msg mid cid)"
  unfolding broadcast_message_def
  by (cases msg) (auto intro!: keeps_rows_intros keeps_rows_registry_case)

lemma keeps_rows_handle_subscribe: "keeps_rows (handle_subscribe self data rid)"
  unfolding handle_subscribe_def Let_def
  by (auto intro!: keeps_rows_intros keeps_rows_send_error keeps_rows_send_last_n
           split: json.split option.split)

lemma keeps_rows_handle_unsubscribe: "keeps_rows (handle_unsubscribe self data rid)"
  unfolding handle_unsubscribe_def Let_def
  by (auto intro!: keeps_rows_intros keeps_rows_send_error split: json.split option.split)

lemma keeps_rows_handle_publish: "keeps_rows (handle_publish self data rid)"
  unfolding handle_publish_def Let_def
  by (auto intro!: keeps_rows_intros keeps_rows_send_error keeps_rows_broadcast_message
           split: json.split option.split)

lemma keeps_rows_handle_ping: "keeps_rows (handle_ping self data rid)"
  unfolding handle_ping_def
  by (intro keeps_rows_intros keeps_rows_send_error)

lemma keeps_rows_receive: "keeps_rows (receive self fr)"
  unfolding receive_def Let_def
  by (auto intro!: keeps_rows_intros keeps_rows_send_error keeps_rows_handle_subscribe
        keeps_rows_handle_unsubscribe keeps_rows_handle_publish keeps_rows_handle_ping
      split: frame.split json.split option.split exn.split)


lemma subscription_count_keys:
  "subscription_count d t = length (filter (\<lambda>k. snd k = t) (subscription_keys d))"
  by (simp add: subscription_count_def subscription_keys_def filter_map comp_def)

lemma length_subscriptions_keys: "length (subscriptions d) = length (subscription_keys d)"
  by (simp add: subscription_keys_def)

lemma receive_counts_grow:
  "subscription_count (db w) t \<le> subscription_count (db (snd (receive self fr w))) t
   \<and> length (subscriptions (db w)) \<le> length (subscriptions (db (snd (receive self fr w))))"
proof -
  from keeps_rows_receive[of self fr] obtain new where
    "subscription_keys (db (snd (receive self fr w))) = new @ subscription_keys (db w)"
    unfolding keeps_rows_def by blast
  then show ?thesis by (simp add: subscription_count_keys length_subscriptions_keys)
qed

lemma detach_all_db: "db (snd (detach_all self ts w)) = db w"
proof (induction ts arbitrary: w)
  case Nil
  show ?case by (simp add: ok_def)
next
  case (Cons t ts)
  have "db (snd (registry_remove t self w)) = db w" and "fst (registry_remove t self w) = Ok ()"
    by (simp_all add: registry_remove_def split: option.split)
  then show ?case
    using Cons.IH[of "snd (registry_remove t self w)"]
    by (cases "registry_remove t self w") (simp add: then_do_def)
qed

lemma detach_all_ok: "fst (detach_all self ts w) = Ok ()"
proof (induction ts arbitrary: w)
  case Nil
  show ?case by (simp add: ok_def)
next
  case (Cons t ts)
  have "fst (registry_remove t self w) = Ok ()"
    by (simp add: registry_remove_def split: option.split)
  then show ?case
    using Cons.IH[of "snd (registry_remove t self w)"]
    by (cases "registry_remove t self w") (simp add: then_do_def)
qed

lemma detach_all_consumers: "consumers (snd (detach_all self ts w)) = consumers w"
proof (induction ts arbitrary: w)
  case Nil
  show ?case by (simp add: ok_def)
next
  case (Cons t ts)
  have "consumers (snd (registry_remove t self w)) = consumers w"
    and "fst (registry_remove t self w) = Ok ()"
    by (simp_all add: registry_remove_def split: option.split)
  then show ?case
    using Cons.IH[of "snd (registry_remove t self w)"]
    by (cases "registry_remove t self w") (simp add: then_do_def)
qed

lemma disconnect_subscriptions:
  assumes "connection_id (consumers w self) = Some cid" and "cid \<noteq> []"
    and "connection (consumers w self) = Some c"
  shows "subscriptions (db (snd (disconnect self w)))
         = filter (\<lambda>s. s_connection s \<noteq> c) (subscriptions (db w))"
proof -
  let ?ts = "subscribed_topics (consumers w self)"
  obtain w1 where w1: "detach_all self ?ts w = (Ok (), w1)"
    using detach_all_ok[of self ?ts w] by (cases "detach_all self ?ts w") simp
  have "db w1 = db w" and "consumers w1 = consumers w"
    using detach_all_db[of self ?ts w] detach_all_consumers[of self ?ts w] w1 by simp_all
  then show ?thesis
    using assms w1
    by (simp add: disconnect_def then_do_def ok_def cleanup_connection_def delete_connection_def)
qed

lemma active_less_than_rows:
  assumes "s \<in> set (subscriptions d)" and "s_topic s = t" and "\<not> s_is_active s"
  shows "active_count d t < subscription_count d t"
proof -
  have "s \<in> set (filter (\<lambda>s. s_topic s = t) (subscriptions d))" using assms by simp
  then have "length (filter s_is_active (filter (\<lambda>s. s_topic s = t) (subscriptions d)))
             < length (filter (\<lambda>s. s_topic s = t) (subscriptions d))"
    using assms(3) by (rule length_filter_less)
  then show ?thesis
    by (simp add: active_count_def subscription_count_def conj_commute)
qed

lemma unsubscribe_leaves_inactive_row:
  assumes "unsubscribe_from_topic self t cid w = (Ok True, w')"
  shows "subscription_keys (db w') = subscription_keys (db w)
         \<and> active_count (db w') t < subscription_count (db w') t"
proof -
  from assms obtain c s0 where c: "connection (consumers w self) = Some c"
    and s0: "find_subscription (db w) c t = Some s0"
    and dbw: "db w' = update_activity c (clock w)
                (update_subscriber_count t (active_count (set_active c t False (db w)) t)
                   (set_active c t False (db w)))"
    by (auto simp: unsubscribe_from_topic_def Let_def split: option.splits)
  from s0 have "find_subscription (set_active c t False (db w)) c t = Some (s0\<lparr>s_is_active := False\<rparr>)"
    by (simp add: find_subscription_set_active)
  then have mem: "s0\<lparr>s_is_active := False\<rparr> \<in> set (subscriptions (set_active c t False (db w)))"
    unfolding find_subscription_def by (blast dest: find_SomeD)
  from s0 have "s_topic s0 = t"
    unfolding find_subscription_def by (blast dest: find_SomeD)
  then have top: "s_topic (s0\<lparr>s_is_active := False\<rparr>) = t" by simp
  have "active_count (set_active c t False (db w)) t < subscription_count (set_active c t False (db w)) t"
    using mem top by (rule active_less_than_rows) simp
  then show ?thesis
    by (simp add: dbw subscription_count_keys)
qed


text \<open>
  Claim C9, as the code has it. \<open>health_check\<close> reports the number of all subscription
  rows, \<open>list_topics\<close> and \<open>get_stats\<close> report per topic the number of its rows,
  whatever their \<open>is_active\<close> flag. A successful unsubscribe leaves these numbers as
  they were, while the topic's recounted \<open>subscriber_count\<close> is then strictly smaller
  than the number of the topic's rows. No frame that a connection sends (subscribe,
  unsubscribe, publish, ping or anything else that \<open>receive\<close> takes) decreases the
  number of rows of any topic or the total. The disconnect of a connected consumer
  deletes exactly the rows of its connection. (Admin deletion of a topic deletes the
  topic's rows as well; see the counterexample below.)
\<close>

theorem reported_subscriber_counts:
  "field (body (health_check up d)) ''subscribers'' = Some (JInt (int (length (subscriptions d))))
   \<and> body (list_topics d)
       = JObj [(''topics'',
                JArr (map (\<lambda>r. JObj [(''name'', JStr (t_name r)),
                                      (''subscribers'',
                                       JInt (int (length (filter (\<lambda>s. s_topic s = t_name r)
                                                                 (subscriptions d)))))])
                          (topics d)))]
   \<and> body (get_stats d)
       = JObj [(''topics'',
                JObj (map (\<lambda>r. (t_name r,
                                 JObj [(''messages'',
                                        JInt (int (length (filter (\<lambda>m. m_topic m = t_name r)
                                                                  (messages d))))),
                                       (''subscribers'',
                                        JInt (int (length (filter (\<lambda>s. s_topic s = t_name r)
                                                                  (subscriptions d)))))]))
                          (topics d)))]
   \<and> (unsubscribe_from_topic self t cid w = (Ok True, w') \<longrightarrow>
         subscription_count (db w') t = subscription_count (db w) t
         \<and> length (subscriptions (db w')) = length (subscriptions (db w))
         \<and> (\<exists>r. find_topic (db w') t = Some r
                \<and> t_subscriber_count r = active_count (db w') t
                \<and> t_subscriber_count r < subscription_count (db w') t))
   \<and> subscription_count (db w) t \<le> subscription_count (db (snd (receive self fr w))) t
   \<and> length (subscriptions (db w)) \<le> length (subscriptions (db (snd (receive self fr w))))
   \<and> (connection_id (consumers w self) = Some i \<and> i \<noteq> [] \<and> connection (consumers w self) = Some c \<longrightarrow>
         subscriptions (db (snd (disconnect self w)))
         = filter (\<lambda>s. s_connection s \<noteq> c) (subscriptions (db w)))"
proof -
  have health: "field (body (health_check up d)) ''subscribers''
                = Some (JInt (int (length (subscriptions d))))"
    by (simp add: health_check_def)
  have topics: "body (list_topics d)
       = JObj [(''topics'',
                JArr (map (\<lambda>r. JObj [(''name'', JStr (t_name r)),
                                      (''subscribers'',
                                       JInt (int (length (filter (\<lambda>s. s_topic s = t_name r)
                                                                 (subscriptions d)))))])
                          (topics d)))]"
    by (simp add: list_topics_def subscription_count_def)
  have stats: "body (get_stats d)
       = JObj [(''topics'',
                JObj (map (\<lambda>r. (t_name r,
                                 JObj [(''messages'',
                                        JInt (int (length (filter (\<lambda>m. m_topic m = t_name r)
                                                                  (messages d))))),
                                       (''subscribers'',
                                        JInt (int (length (filter (\<lambda>s. s_topic s = t_name r)
                                                                  (subscriptions d)))))]))
                          (topics d)))]"
    by (simp add: get_stats_def subscription_count_def)
  have unsub: "unsubscribe_from_topic self t cid w = (Ok True, w') \<longrightarrow>
         subscription_count (db w') t = subscription_count (db w) t
         \<and> length (subscriptions (db w')) = length (subscriptions (db w))
         \<and> (\<exists>r. find_topic (db w') t = Some r
                \<and> t_subscriber_count r = active_count (db w') t
                \<and> t_subscriber_count r < subscription_count (db w') t)"
  proof
    assume run: "unsubscribe_from_topic self t cid w = (Ok True, w')"
    from unsubscribe_leaves_inactive_row[OF run]
    have keys: "subscription_keys (db w') = subscription_keys (db w)"
      and less: "active_count (db w') t < subscription_count (db w') t" by simp_all
    from unsubscribe_from_topic_count[OF run] obtain r where
      r: "find_topic (db w') t = Some r" "t_subscriber_count r = active_count (db w') t" by blast
    from keys have "subscription_count (db w') t = subscription_count (db w) t"
      and "length (subscriptions (db w')) = length (subscriptions (db w))"
      by (simp_all add: subscription_count_keys length_subscriptions_keys)
    with r less show "subscription_count (db w') t = subscription_count (db w) t
         \<and> length (subscriptions (db w')) = length (subscriptions (db w))
         \<and> (\<exists>r. find_topic (db w') t = Some r
                \<and> t_subscriber_count r = active_count (db w') t
                \<and> t_subscriber_count r < subscription_count (db w') t)"
      by simp
  qed
  have disc: "connection_id (consumers w self) = Some i \<and> i \<noteq> [] \<and> connection (consumers w self) = Some c \<longrightarrow>
         subscriptions (db (snd (disconnect self w)))
         = filter (\<lambda>s. s_connection s \<noteq> c) (subscriptions (db w))"
    using disconnect_subscriptions[of w self i c] by blast
  from receive_counts_grow[of w t self fr]
  have grow1: "subscription_count (db w) t \<le> subscription_count (db (snd (receive self fr w))) t"
    and grow2: "length (subscriptions (db w)) \<le> length (subscriptions (db (snd (receive self fr w))))"
    by simp_all
  show ?thesis
    by (intro conjI health topics stats unsub grow1 grow2 disc)
qed

theorem reported_subscriber_counts_witness:
  "(\<exists>r. find_topic (db (snd (unsubscribe_from_topic 2 ''news'' (JStr ''bob'') example_world))) ''news''
            = Some r
         \<and> t_subscriber_count r = 1)
   \<and> subscription_count (db (snd (unsubscribe_from_topic 2 ''news'' (JStr ''bob'') example_world))) ''news''
       = 2
   \<and> subscriptions (db (snd (disconnect 2 example_world)))
       = [\<lparr>s_connection = ''conn-3'', s_topic = ''news'', s_is_active = True\<rparr>]"
proof -
  let ?w' = "snd (unsubscribe_from_topic 2 ''news'' (JStr ''bob'') example_world)"
  have run: "unsubscribe_from_topic 2 ''news'' (JStr ''bob'') example_world = (Ok True, ?w')"
    by (simp add: unsubscribe_from_topic_def find_topic_def find_subscription_def Let_def example_defs)
  have active: "active_count (db ?w') ''news'' = 1"
    by (simp add: unsubscribe_from_topic_def find_topic_def find_subscription_def Let_def example_defs
          active_count_def set_active_def update_activity_def update_subscriber_count_def)
  have rows: "subscription_count (db example_world) ''news'' = 2"
    by (simp add: subscription_count_def example_defs)
  have conn: "connection_id (consumers example_world 2) = Some ''conn-2'' \<and> ''conn-2'' \<noteq> []
              \<and> connection (consumers example_world 2) = Some ''conn-2''"
    by (simp add: example_defs)
  have left: "filter (\<lambda>s. s_connection s \<noteq> ''conn-2'') (subscriptions (db example_world))
              = [\<lparr>s_connection = ''conn-3'', s_topic = ''news'', s_is_active = True\<rparr>]"
    by (simp add: example_defs)
  note facts = reported_subscriber_counts
         [where self = 2 and t = "''news''" and cid = "JStr ''bob''" and w = example_world
            and w' = ?w' and i = "''conn-2''" and c = "''conn-2''"]
  from facts run obtain r where r: "find_topic (db ?w') ''news'' = Some r"
      "t_subscriber_count r = active_count (db ?w') ''news''"
    and same: "subscription_count (db ?w') ''news'' = subscription_count (db example_world) ''news''"
    by blast
  from facts conn have gone: "subscriptions (db (snd (disconnect 2 example_world)))
       = filter (\<lambda>s. s_connection s \<noteq> ''conn-2'') (subscriptions (db example_world))"
    by blast
  from r active have "\<exists>r. find_topic (db ?w') ''news'' = Some r \<and> t_subscriber_count r = 1"
    by simp
  moreover from same rows have "subscription_count (db ?w') ''news'' = 2" by simp
  moreover from gone left have "subscriptions (db (snd (disconnect 2 example_world)))
       = [\<lparr>s_connection = ''conn-3'', s_topic = ''news'', s_is_active = True\<rparr>]" by simp
  ultimately show ?thesis by blast
qed

text \<open>
  The claim as stated says that only disconnect decreases the reported counts. Deleting
  the topic news of the example world through \<open>delete_topic\<close>, with no disconnect,
  takes the subscribers reported by \<open>health_check\<close> from 2 to 0.
\<close>

theorem delete_topic_lowers_health_count:
  "field (body (health_check 0 (db example_world))) ''subscribers'' = Some (JInt 2)
   \<and> field (body (health_check 0 (db (snd (delete_topic ''news'' example_world))))) ''subscribers''
       = Some (JInt 0)"
  by (simp add: health_check_def exec_defs example_defs)


end
